theory Spec2Isabelle
  imports Main "HOL-Library.Word"
begin

unbundle bit_operations_syntax

section \<open>String utilities (namespace base::utils::string)\<close>

text \<open>
  \<open>std::string_view::find(char)\<close>: the index of the first occurrence of the character,
  \<open>None\<close> standing for \<open>npos\<close>.
\<close>

fun find_char :: "char \<Rightarrow> string \<Rightarrow> nat option" where
  "find_char d [] = None"
| "find_char d (c # cs) = (if c = d then Some 0 else map_option Suc (find_char d cs))"

lemma find_char_less: "find_char d str = Some pos \<Longrightarrow> pos < length str"
  by (induction str arbitrary: pos) (auto split: if_splits)

text \<open>
  The \<open>while (true)\<close> loop of \<open>split\<close>: every iteration cuts the view after the first
  delimiter and appends the part before it to \<open>ret\<close>; the loop ends when no delimiter
  is left and hands back \<open>ret\<close> and the remaining view.
\<close>

function split_loop :: "string \<Rightarrow> char \<Rightarrow> string list \<Rightarrow> string list \<times> string" where
  "split_loop str delimiter ret =
     (case find_char delimiter str of
        None \<Rightarrow> (ret, str)
      | Some pos \<Rightarrow> split_loop (drop (pos + 1) str) delimiter (ret @ [take pos str]))"
  by pat_completeness auto
termination
  by (relation "measure (\<lambda>(str, delimiter, ret). length str)") (auto dest: find_char_less)

declare split_loop.simps [simp del]

definition split :: "string \<Rightarrow> char \<Rightarrow> string list" where
  "split str delimiter =
     (case split_loop str delimiter [] of
        (ret, rest) \<Rightarrow> if rest \<noteq> [] then ret @ [rest] else ret)"

text \<open>The \<open>for\<close> loop of \<open>join\<close>, with the index \<open>i\<close> and the accumulated \<open>strResult\<close>.\<close>

fun join_loop :: "nat \<Rightarrow> string list \<Rightarrow> string \<Rightarrow> bool \<Rightarrow> string \<Rightarrow> string" where
  "join_loop i [] separator startsWithSeparator strResult = strResult"
| "join_loop i (s # rest) separator startsWithSeparator strResult =
     join_loop (Suc i) rest separator startsWithSeparator
       (strResult @ (if \<not> startsWithSeparator \<and> i = 0 then [] else separator) @ s)"

definition join :: "string list \<Rightarrow> string \<Rightarrow> bool \<Rightarrow> string" where
  "join strVector separator startsWithSeparator =
     join_loop 0 strVector separator startsWithSeparator []"

text \<open>
  Reference definition, not taken from the code: all the segments of a string that the
  delimiter separates, the empty ones included (a string with \<open>n\<close> delimiters has
  \<open>n + 1\<close> segments).
\<close>

fun segments :: "string \<Rightarrow> char \<Rightarrow> string list" where
  "segments [] d = [[]]"
| "segments (c # cs) d =
     (if c = d then [] # segments cs d
      else (case segments cs d of [] \<Rightarrow> [[c]] | s # ss \<Rightarrow> (c # s) # ss))"

text \<open>\<open>std::to_string\<close> / the \<open>{}\<close> of \<open>fmt::format\<close> on an unsigned number.\<close>

definition digit_char :: "nat \<Rightarrow> char" where
  "digit_char n = char_of (48 + n)"

function to_string :: "nat \<Rightarrow> string" where
  "to_string n = (if n < 10 then [digit_char n] else to_string (n div 10) @ [digit_char (n mod 10)])"
  by pat_completeness auto
termination
  by (relation "measure (\<lambda>n. n)") auto

declare to_string.simps [simp del]

definition dq :: string where
  "dq = [CHR 0x22]"

definition sq :: string where
  "sq = [CHR 0x27]"

section \<open>Exceptions of the C++ side\<close>

text \<open>
  The exceptions the modelled code throws and catches. \<open>std::invalid_argument\<close> and
  \<open>std::out_of_range\<close> are \<open>std::logic_error\<close>s: a handler for
  \<open>std::runtime_error\<close> does not catch them, a handler for \<open>std::exception\<close> does.
\<close>

datatype exn =
    RuntimeError string
  | InvalidArgument string
  | OutOfRange string
  | BadFunctionCall
  | BadOptionalAccess

fun what :: "exn \<Rightarrow> string" where
  "what (RuntimeError m) = m"
| "what (InvalidArgument m) = m"
| "what (OutOfRange m) = m"
| "what BadFunctionCall = ''bad_function_call''"
| "what BadOptionalAccess = ''bad optional access''"

definition bindE :: "exn + 'a \<Rightarrow> ('a \<Rightarrow> exn + 'b) \<Rightarrow> exn + 'b" where
  "bindE m f = (case m of Inl e \<Rightarrow> Inl e | Inr x \<Rightarrow> f x)"

text \<open>\<open>std::optional::value()\<close>: the value, or \<open>std::bad_optional_access\<close>.\<close>

definition value_of :: "'a option \<Rightarrow> exn + 'a" where
  "value_of opt = (case opt of None \<Rightarrow> Inl BadOptionalAccess | Some v \<Rightarrow> Inr v)"

subsection \<open>\<open>std::stoi\<close>\<close>

text \<open>
  \<open>std::stoi(str)\<close> with base 10, as the C++ standard defines it through \<open>strtol\<close>:
  leading white space is skipped, one sign is accepted, then the longest run of decimal
  digits is read and whatever follows is ignored. No digit: \<open>std::invalid_argument\<close>.
  A value outside the range of \<open>int\<close> (32 bits): \<open>std::out_of_range\<close>. The message of
  both is \<open>"stoi"\<close>.
\<close>

definition isspace :: "char \<Rightarrow> bool" where
  "isspace c = (c \<in> set [CHR 0x20, CHR 0x09, CHR 0x0A, CHR 0x0B, CHR 0x0C, CHR 0x0D])"

definition isdigit :: "char \<Rightarrow> bool" where
  "isdigit c = (48 \<le> (of_char c :: nat) \<and> (of_char c :: nat) \<le> 57)"

fun digits_value :: "string \<Rightarrow> int \<Rightarrow> int" where
  "digits_value [] acc = acc"
| "digits_value (c # cs) acc = digits_value cs (acc * 10 + (of_char c - 48))"

definition INT_MIN :: int where
  "INT_MIN = - 2147483648"

definition INT_MAX :: int where
  "INT_MAX = 2147483647"

definition stoi :: "string \<Rightarrow> exn + int" where
  "stoi str =
     (let s1 = dropWhile isspace str;
          neg = (s1 \<noteq> [] \<and> hd s1 = CHR ''-'');
          s2 = (if s1 \<noteq> [] \<and> (hd s1 = CHR ''-'' \<or> hd s1 = CHR ''+'') then tl s1 else s1);
          ds = takeWhile isdigit s2;
          v = (if neg then - digits_value ds 0 else digits_value ds 0)
      in if ds = [] then Inl (InvalidArgument ''stoi'')
         else if v < INT_MIN \<or> INT_MAX < v then Inl (OutOfRange ''stoi'')
         else Inr v)"

section \<open>Events: JSON documents behind a shared reference\<close>

datatype JValue =
    JNull
  | JBool bool
  | JInt int
  | JDouble "64 word"
  | JString string
  | JArray "JValue list"
  | JObject "(string \<times> JValue) list"

text \<open>
  Modelled from the spec: the class \<open>json::Json\<close> (the JSON document accessor) is not
  part of the sources. The spec describes it as a mutable document with typed accessors
  keyed by pointer path, so a document is the lookup from pointer paths to the values
  stored there. A typed getter answers only when the value at the path has that type;
  \<open>getInt\<close> answers for integers that fit a 32-bit \<open>int\<close>; a \<open>JDouble\<close> carries the
  bits of the number, which no helper below inspects.
\<close>

type_synonym Json = "string \<Rightarrow> JValue option"

definition exists_path :: "Json \<Rightarrow> string \<Rightarrow> bool" where
  "exists_path doc path = (doc path \<noteq> None)"

definition getString :: "Json \<Rightarrow> string \<Rightarrow> string option" where
  "getString doc path = (case doc path of Some (JString s) \<Rightarrow> Some s | _ \<Rightarrow> None)"

definition getInt :: "Json \<Rightarrow> string \<Rightarrow> int option" where
  "getInt doc path =
     (case doc path of
        Some (JInt i) \<Rightarrow> if INT_MIN \<le> i \<and> i \<le> INT_MAX then Some i else None
      | _ \<Rightarrow> None)"

definition getBool :: "Json \<Rightarrow> string \<Rightarrow> bool option" where
  "getBool doc path = (case doc path of Some (JBool b) \<Rightarrow> Some b | _ \<Rightarrow> None)"

definition getArray :: "Json \<Rightarrow> string \<Rightarrow> JValue list option" where
  "getArray doc path = (case doc path of Some (JArray xs) \<Rightarrow> Some xs | _ \<Rightarrow> None)"

definition getJson :: "Json \<Rightarrow> string \<Rightarrow> JValue option" where
  "getJson doc path = doc path"

definition isNumber :: "Json \<Rightarrow> string \<Rightarrow> bool" where
  "isNumber doc path = (case doc path of Some (JInt i) \<Rightarrow> True | Some (JDouble d) \<Rightarrow> True | _ \<Rightarrow> False)"

definition isString :: "Json \<Rightarrow> string \<Rightarrow> bool" where
  "isString doc path = (case doc path of Some (JString s) \<Rightarrow> True | _ \<Rightarrow> False)"

definition isBool :: "Json \<Rightarrow> string \<Rightarrow> bool" where
  "isBool doc path = (case doc path of Some (JBool b) \<Rightarrow> True | _ \<Rightarrow> False)"

definition isArray :: "Json \<Rightarrow> string \<Rightarrow> bool" where
  "isArray doc path = (case doc path of Some (JArray xs) \<Rightarrow> True | _ \<Rightarrow> False)"

definition isObject :: "Json \<Rightarrow> string \<Rightarrow> bool" where
  "isObject doc path = (case doc path of Some (JObject kvs) \<Rightarrow> True | _ \<Rightarrow> False)"

definition isNull :: "Json \<Rightarrow> string \<Rightarrow> bool" where
  "isNull doc path = (case doc path of Some JNull \<Rightarrow> True | _ \<Rightarrow> False)"

definition setBool :: "Json \<Rightarrow> bool \<Rightarrow> string \<Rightarrow> Json" where
  "setBool doc b path = doc(path \<mapsto> JBool b)"

text \<open>
  \<open>base::Event\<close> is a \<open>std::shared_ptr<json::Json>\<close>: an event is a reference, and the
  documents live in a store that maps each reference to its document. A helper receives
  the reference and the store and hands back a result and the store it leaves behind.
\<close>

type_synonym Event = nat

type_synonym Store = "Event \<Rightarrow> Json"

text \<open>
  Modelled from the spec: \<open>base::result::Result\<close> with \<open>makeSuccess\<close> and
  \<open>makeFailure\<close> is not part of the sources; the spec gives it as
  \<open>{ ok: bool, event: EventRef, trace: string }\<close>. The field names are those of the
  accessors the tests call (\<open>success()\<close>, \<open>payload()\<close>).
\<close>

record Result =
  success :: bool
  payload :: Event
  trace :: string

definition makeSuccess :: "Event \<Rightarrow> string \<Rightarrow> Result" where
  "makeSuccess event tr = \<lparr>success = True, payload = event, trace = tr\<rparr>"

definition makeFailure :: "Event \<Rightarrow> string \<Rightarrow> Result" where
  "makeFailure event tr = \<lparr>success = False, payload = event, trace = tr\<rparr>"

text \<open>
  \<open>base::EngineOp\<close>, the function a \<open>Term\<close> carries: it either returns a result together
  with the store after the call, or an exception leaves it.
\<close>

type_synonym EngineOp = "Event \<Rightarrow> Store \<Rightarrow> exn + (Result \<times> Store)"

text \<open>
  Modelled from the spec: the expression classes (\<open>base::Term\<close>, \<open>base::Operation\<close> and
  its kinds) are not part of the sources; the spec gives the six variants.
\<close>

datatype Expression =
    Term string EngineOp
  | And string "Expression list"
  | Or string "Expression list"
  | Chain string "Expression list"
  | Broadcast string "Expression list"
  | Implication string Expression Expression

fun getName :: "Expression \<Rightarrow> string" where
  "getName (Term n f) = n"
| "getName (And n xs) = n"
| "getName (Or n xs) = n"
| "getName (Chain n xs) = n"
| "getName (Broadcast n xs) = n"
| "getName (Implication n a c) = n"

fun isTerm :: "Expression \<Rightarrow> bool" where
  "isTerm (Term n f) = True"
| "isTerm e = False"

fun getFn :: "Expression \<Rightarrow> EngineOp option" where
  "getFn (Term n f) = Some f"
| "getFn e = None"

section \<open>Helper parameters (baseHelper.cpp)\<close>

datatype ParameterType = VALUE | REFERENCE

record Parameter =
  m_type :: ParameterType
  m_value :: string

text \<open>
  The enumerators of \<open>Parameter::Type\<close> are declared in a header that is not part of
  the sources; the numbers below only appear in the text of one build error.
\<close>

fun typeCode :: "ParameterType \<Rightarrow> nat" where
  "typeCode REFERENCE = 0"
| "typeCode VALUE = 1"

text \<open>
  A helper definition arrives as a \<open>std::any\<close>; \<open>std::any_cast\<close> succeeds when it holds
  the triple of target field, helper name and raw parameters.
\<close>

datatype any = AnyDefinition "string \<times> string \<times> string list" | AnyOther

definition extractDefinition :: "any \<Rightarrow> exn + (string \<times> string \<times> string list)" where
  "extractDefinition defn =
     (case defn of
        AnyDefinition extracted \<Rightarrow> Inr extracted
      | AnyOther \<Rightarrow> Inl (RuntimeError ''Cannot process definition: bad any_cast''))"

text \<open>
  Modelled from the spec: the constant \<open>syntax::REFERENCE_ANCHOR\<close> is declared in
  \<open>syntax.hpp\<close>, which is not part of the sources; the spec says that a token starting
  with \<open>$\<close> is a reference.
\<close>

definition REFERENCE_ANCHOR :: char where
  "REFERENCE_ANCHOR = CHR ''$''"

text \<open>
  Modelled from the spec: \<open>json::Json::formatJsonPath\<close> is not part of the sources. The
  spec: the remainder is translated by splitting on \<open>.\<close>, escaping slashes and putting a
  \<open>/\<close> before every segment; the translation fails when the remainder is empty. (The
  spec also names forbidden characters without listing any; none is modelled.)
\<close>

definition escapeSlashes :: "string \<Rightarrow> string" where
  "escapeSlashes s = concat (map (\<lambda>c. if c = CHR ''/'' then ''~1'' else [c]) s)"

definition formatJsonPath :: "string \<Rightarrow> exn + string" where
  "formatJsonPath dotPath =
     (if dotPath = [] then Inl (RuntimeError ''InvalidReference'')
      else Inr (join (map escapeSlashes (split dotPath (CHR ''.''))) ''/'' True))"

text \<open>
  \<open>parameter[0]\<close> on a \<open>std::string\<close>: the character at the index, and the null
  character at the index \<open>size()\<close>.
\<close>

definition char_at :: "string \<Rightarrow> nat \<Rightarrow> char" where
  "char_at s i = (if i < length s then s ! i else CHR 0x00)"

text \<open>The lambda that \<open>processParameters\<close> hands to \<open>std::transform\<close>.\<close>

definition processParameter :: "string \<Rightarrow> string \<Rightarrow> exn + Parameter" where
  "processParameter name parameter =
     (if REFERENCE_ANCHOR = char_at parameter 0 then
        (case formatJsonPath (drop 1 parameter) of
           Inl e \<Rightarrow>
             Inl (RuntimeError (''Cannot format parameter '' @ dq @ parameter @ dq
                    @ '' from to Json pointer path: '' @ what e))
         | Inr pointerPath \<Rightarrow> Inr \<lparr>m_type = REFERENCE, m_value = pointerPath\<rparr>)
      else Inr \<lparr>m_type = VALUE, m_value = parameter\<rparr>)"

fun processParameters :: "string \<Rightarrow> string list \<Rightarrow> exn + Parameter list" where
  "processParameters name [] = Inr []"
| "processParameters name (parameter # rest) =
     bindE (processParameter name parameter) (\<lambda>p.
     bindE (processParameters name rest) (\<lambda>ps. Inr (p # ps)))"

definition checkParametersSize :: "string \<Rightarrow> Parameter list \<Rightarrow> nat \<Rightarrow> exn + unit" where
  "checkParametersSize name parameters sz =
     (if length parameters \<noteq> sz then
        Inl (RuntimeError (''Expected '' @ to_string sz @ '' parameters but got ''
               @ to_string (length parameters)))
      else Inr ())"

definition checkParametersMinSize :: "string \<Rightarrow> Parameter list \<Rightarrow> nat \<Rightarrow> exn + unit" where
  "checkParametersMinSize name parameters minSize =
     (if length parameters < minSize then
        Inl (RuntimeError (''Expected at least '' @ to_string minSize @ '' parameters but got ''
               @ to_string (length parameters)))
      else Inr ())"

definition checkParameterType :: "string \<Rightarrow> Parameter \<Rightarrow> ParameterType \<Rightarrow> exn + unit" where
  "checkParameterType name parameter ty =
     (if m_type parameter \<noteq> ty then
        Inl (RuntimeError (''Parameter '' @ dq @ m_value parameter @ dq @ '' is of type '' @ dq
               @ to_string (typeCode (m_type parameter)) @ dq
               @ '' but it is expected to be of type '' @ dq @ to_string (typeCode ty) @ dq @ ''.''))
      else Inr ())"

definition formatHelperName :: "string \<Rightarrow> string \<Rightarrow> Parameter list \<Rightarrow> string" where
  "formatHelperName name targetField parameters =
     ''helper.'' @ name @ ''['' @ targetField
       @ concat (map (\<lambda>p. '', '' @ m_value p) parameters) @ '']''"

section \<open>Comparison filters (opBuilderHelperFilter.cpp)\<close>

datatype Operator = EQ | NE | GT | GE | LT | LE | ST | CN

text \<open>The enumeration \<open>Type\<close> (\<open>STRING\<close>, \<open>INT\<close>); \<open>INT\<close> is reserved syntax here.\<close>

datatype Type = TypeSTRING | TypeINT

text \<open>
  The \<open>std::variant<std::string, int>\<close> in which \<open>getIntCmpFunction\<close> keeps the right
  operand: the pointer path of a reference, or the integer of a value.
\<close>

datatype RValue = RString string | RInt int

text \<open>
  The \<open>switch\<close> that picks the integer comparison. Its \<open>default\<close> leaves the
  \<open>std::function\<close> empty (\<open>None\<close>); calling an empty \<open>std::function\<close> throws
  \<open>std::bad_function_call\<close>.
\<close>

fun intCmpFunction :: "Operator \<Rightarrow> (int \<Rightarrow> int \<Rightarrow> bool) option" where
  "intCmpFunction EQ = Some (\<lambda>l r. l = r)"
| "intCmpFunction NE = Some (\<lambda>l r. l \<noteq> r)"
| "intCmpFunction GT = Some (\<lambda>l r. l > r)"
| "intCmpFunction GE = Some (\<lambda>l r. l \<ge> r)"
| "intCmpFunction LT = Some (\<lambda>l r. l < r)"
| "intCmpFunction LE = Some (\<lambda>l r. l \<le> r)"
| "intCmpFunction ST = None"
| "intCmpFunction CN = None"

text \<open>The lambda that \<open>getIntCmpFunction\<close> returns.\<close>

definition intCmpOp :: "string \<Rightarrow> Operator \<Rightarrow> Parameter \<Rightarrow> RValue \<Rightarrow> string \<Rightarrow> EngineOp" where
  "intCmpOp targetField op rightParameter rValue name event st =
     (let successTrace = ''['' @ name @ ''] -> Success'';
          failureTrace1 = ''['' @ name @ ''] -> Failure: Target field '' @ sq @ targetField @ sq
                            @ '' not found'';
          failureTrace2 = ''['' @ name @ ''] -> Failure: Parameter '' @ dq
                            @ m_value rightParameter @ dq @ '' not found'';
          failureTrace3 = ''['' @ name @ ''] -> Failure: Comparison is false''
      in case getInt (st event) targetField of
           None \<Rightarrow> Inr (makeFailure event failureTrace1, st)
         | Some lValue \<Rightarrow>
             (case (case rValue of
                      RString path \<Rightarrow> getInt (st event) path
                    | RInt i \<Rightarrow> Some i) of
                None \<Rightarrow> Inr (makeFailure event failureTrace2, st)
              | Some resolvedValue \<Rightarrow>
                  (case intCmpFunction op of
                     None \<Rightarrow> Inl BadFunctionCall
                   | Some cmpFunction \<Rightarrow>
                       if cmpFunction lValue resolvedValue
                       then Inr (makeSuccess event successTrace, st)
                       else Inr (makeFailure event failureTrace3, st))))"

definition getIntCmpFunction :: "string \<Rightarrow> Operator \<Rightarrow> Parameter \<Rightarrow> string \<Rightarrow> exn + EngineOp" where
  "getIntCmpFunction targetField op rightParameter name =
     bindE (case m_type rightParameter of
              VALUE \<Rightarrow>
                (case stoi (m_value rightParameter) of
                   Inl e \<Rightarrow>
                     Inl (RuntimeError (dq @ name @ dq @ '' function: Parameter '' @ dq
                            @ m_value rightParameter @ dq @ '' could not be converted to int: ''
                            @ what e @ ''.''))
                 | Inr i \<Rightarrow> Inr (RInt i))
            | REFERENCE \<Rightarrow> Inr (RString (m_value rightParameter)))
       (\<lambda>rValue. Inr (intCmpOp targetField op rightParameter rValue name))"

text \<open>
  The comparisons of \<open>std::string\<close>: \<open><\<close> compares byte by byte, a proper prefix
  being smaller.
\<close>

fun string_less :: "string \<Rightarrow> string \<Rightarrow> bool" where
  "string_less [] [] = False"
| "string_less [] (y # ys) = True"
| "string_less (x # xs) [] = False"
| "string_less (x # xs) (y # ys) =
     (if (of_char x :: nat) < of_char y then True
      else if (of_char y :: nat) < of_char x then False
      else string_less xs ys)"

text \<open>\<open>l.find(r) != npos\<close>: \<open>r\<close> occurs in \<open>l\<close> at some position.\<close>

definition string_find :: "string \<Rightarrow> string \<Rightarrow> bool" where
  "string_find l r = list_ex (\<lambda>i. take (length r) (drop i l) = r) [0..<Suc (length l)]"

fun stringCmpFunction :: "Operator \<Rightarrow> string \<Rightarrow> string \<Rightarrow> bool" where
  "stringCmpFunction EQ l r = (l = r)"
| "stringCmpFunction NE l r = (l \<noteq> r)"
| "stringCmpFunction GT l r = string_less r l"
| "stringCmpFunction GE l r = (\<not> string_less l r)"
| "stringCmpFunction LT l r = string_less l r"
| "stringCmpFunction LE l r = (\<not> string_less r l)"
| "stringCmpFunction ST l r = (take (length r) l = r)"
| "stringCmpFunction CN l r = (if r \<noteq> [] then string_find l r else False)"

text \<open>
  The local lambda \<open>validateNumericString\<close>. It throws a \<open>std::runtime_error\<close> for a
  missing string and for one that \<open>std::stoi\<close> rejects with \<open>std::invalid_argument\<close>;
  the \<open>std::out_of_range\<close> of \<open>std::stoi\<close> is not caught and passes through.
\<close>

definition validateNumericString :: "string \<Rightarrow> string \<Rightarrow> Parameter \<Rightarrow> string option \<Rightarrow> exn + unit" where
  "validateNumericString name targetField rightParameter str =
     (case str of
        None \<Rightarrow>
          Inl (RuntimeError (''['' @ name @ ''] -> Failure: Target field '' @ sq @ targetField @ sq
                 @ '' or Parameter '' @ dq @ m_value rightParameter @ dq @ '' not found''))
      | Some s \<Rightarrow>
          (case stoi s of
             Inl (InvalidArgument m) \<Rightarrow>
               Inl (RuntimeError (''['' @ name @ ''] -> Failure: Target field '' @ sq @ targetField
                      @ sq @ '' or Parameter '' @ dq @ m_value rightParameter @ dq
                      @ '' have no valid arguments''))
           | Inl e \<Rightarrow> Inl e
           | Inr i \<Rightarrow> Inr ()))"

text \<open>
  The lambda that \<open>getStringCmpFunction\<close> returns. Each \<open>try\<close> block turns the
  exception its handler names into a failure whose trace is the message; any other
  exception leaves the lambda.
\<close>

definition stringCmpOp :: "string \<Rightarrow> Operator \<Rightarrow> Parameter \<Rightarrow> string \<Rightarrow> EngineOp" where
  "stringCmpOp targetField op rightParameter name event st =
     (let rValue = m_value rightParameter;
          rValueType = m_type rightParameter;
          successTrace = ''['' @ name @ ''] -> Success'';
          failureTrace3 = ''['' @ name @ ''] -> Failure: Comparison is false'';
          lValue = getString (st event) targetField
      in case validateNumericString name targetField rightParameter lValue of
           Inl (RuntimeError m) \<Rightarrow> Inr (makeFailure event m, st)
         | Inl e \<Rightarrow> Inl e
         | Inr u \<Rightarrow>
             (case stoi rValue of
                Inl (InvalidArgument m) \<Rightarrow> Inr (makeFailure event m, st)
              | Inl e \<Rightarrow> Inl e
              | Inr i \<Rightarrow>
                  (case (if rValueType = REFERENCE then
                           (let resolvedRValue = getString (st event) rValue
                            in bindE (validateNumericString name targetField rightParameter
                                        resolvedRValue)
                                 (\<lambda>u. value_of resolvedRValue))
                         else Inr rValue) of
                     Inl (RuntimeError m) \<Rightarrow> Inr (makeFailure event m, st)
                   | Inl e \<Rightarrow> Inl e
                   | Inr resolvedValue \<Rightarrow>
                       bindE (value_of lValue) (\<lambda>l.
                         if stringCmpFunction op l resolvedValue
                         then Inr (makeSuccess event successTrace, st)
                         else Inr (makeFailure event failureTrace3, st)))))"

definition getStringCmpFunction :: "string \<Rightarrow> Operator \<Rightarrow> Parameter \<Rightarrow> string \<Rightarrow> exn + EngineOp" where
  "getStringCmpFunction targetField op rightParameter name =
     Inr (stringCmpOp targetField op rightParameter name)"

definition opBuilderComparison :: "any \<Rightarrow> Operator \<Rightarrow> Type \<Rightarrow> exn + Expression" where
  "opBuilderComparison defn op t =
     bindE (extractDefinition defn) (\<lambda>(targetField, name, raw_parameters).
     bindE (processParameters name raw_parameters) (\<lambda>parameters.
     bindE (checkParametersSize name parameters 1) (\<lambda>u.
       let name = formatHelperName name targetField parameters
       in case t of
            TypeINT \<Rightarrow>
              bindE (getIntCmpFunction targetField op (parameters ! 0) name) (\<lambda>opFn.
                Inr (Term name opFn))
          | TypeSTRING \<Rightarrow>
              bindE (getStringCmpFunction targetField op (parameters ! 0) name) (\<lambda>opFn.
                Inr (Term name opFn)))))"

subsection \<open>Int and string comparison builders\<close>

definition opBuilderHelperIntEqual :: "any \<Rightarrow> exn + Expression" where
  "opBuilderHelperIntEqual defn = opBuilderComparison defn EQ TypeINT"

definition opBuilderHelperIntNotEqual :: "any \<Rightarrow> exn + Expression" where
  "opBuilderHelperIntNotEqual defn = opBuilderComparison defn NE TypeINT"

definition opBuilderHelperIntLessThan :: "any \<Rightarrow> exn + Expression" where
  "opBuilderHelperIntLessThan defn = opBuilderComparison defn LT TypeINT"

definition opBuilderHelperIntLessThanEqual :: "any \<Rightarrow> exn + Expression" where
  "opBuilderHelperIntLessThanEqual defn = opBuilderComparison defn LE TypeINT"

definition opBuilderHelperIntGreaterThan :: "any \<Rightarrow> exn + Expression" where
  "opBuilderHelperIntGreaterThan defn = opBuilderComparison defn GT TypeINT"

definition opBuilderHelperIntGreaterThanEqual :: "any \<Rightarrow> exn + Expression" where
  "opBuilderHelperIntGreaterThanEqual defn = opBuilderComparison defn GE TypeINT"

definition opBuilderHelperStringEqual :: "any \<Rightarrow> exn + Expression" where
  "opBuilderHelperStringEqual defn = opBuilderComparison defn EQ TypeSTRING"

definition opBuilderHelperStringNotEqual :: "any \<Rightarrow> exn + Expression" where
  "opBuilderHelperStringNotEqual defn = opBuilderComparison defn NE TypeSTRING"

definition opBuilderHelperStringGreaterThan :: "any \<Rightarrow> exn + Expression" where
  "opBuilderHelperStringGreaterThan defn = opBuilderComparison defn GT TypeSTRING"

definition opBuilderHelperStringGreaterThanEqual :: "any \<Rightarrow> exn + Expression" where
  "opBuilderHelperStringGreaterThanEqual defn = opBuilderComparison defn GE TypeSTRING"

definition opBuilderHelperStringLessThan :: "any \<Rightarrow> exn + Expression" where
  "opBuilderHelperStringLessThan defn = opBuilderComparison defn LT TypeSTRING"

definition opBuilderHelperStringLessThanEqual :: "any \<Rightarrow> exn + Expression" where
  "opBuilderHelperStringLessThanEqual defn = opBuilderComparison defn LE TypeSTRING"

definition opBuilderHelperStringStarts :: "any \<Rightarrow> exn + Expression" where
  "opBuilderHelperStringStarts defn = opBuilderComparison defn ST TypeSTRING"

definition opBuilderHelperStringContains :: "any \<Rightarrow> exn + Expression" where
  "opBuilderHelperStringContains defn = opBuilderComparison defn CN TypeSTRING"

subsection \<open>Regex filters\<close>

text \<open>
  The regular-expression library RE2 is external: \<open>re2_ok pattern\<close> tells whether the
  pattern compiles, \<open>re2_PartialMatch text pattern\<close> whether it matches somewhere in the
  text. The builders take the library as a parameter.
\<close>

record RE2 =
  re2_ok :: "string \<Rightarrow> bool"
  re2_PartialMatch :: "string \<Rightarrow> string \<Rightarrow> bool"

text \<open>
  The \<open>Term\<close> of \<open>regex_match\<close> (\<open>negated = False\<close>) and of \<open>regex_not_match\<close>
  (\<open>negated = True\<close>); the two lambdas differ in the negation of the match and in the
  text of the second failure trace.
\<close>

definition regexOp :: "RE2 \<Rightarrow> bool \<Rightarrow> string \<Rightarrow> string \<Rightarrow> string \<Rightarrow> EngineOp" where
  "regexOp re2 negated pattern targetField name event st =
     (let successTrace = ''['' @ name @ ''] -> Success'';
          failureTrace1 = ''['' @ name @ ''] -> Failure: Target field '' @ sq @ targetField @ sq
                            @ '' not found'';
          failureTrace2 = ''['' @ name @ ''] -> Failure: ''
                            @ (if negated then ''Regex did match'' else ''Regex did not match'')
      in case getString (st event) targetField of
           None \<Rightarrow> Inr (makeFailure event failureTrace1, st)
         | Some resolvedField \<Rightarrow>
             if re2_PartialMatch re2 resolvedField pattern \<noteq> negated
             then Inr (makeSuccess event successTrace, st)
             else Inr (makeFailure event failureTrace2, st))"

definition regexBuilder :: "RE2 \<Rightarrow> bool \<Rightarrow> any \<Rightarrow> exn + Expression" where
  "regexBuilder re2 negated defn =
     bindE (extractDefinition defn) (\<lambda>(targetField, name, raw_parameters).
     bindE (processParameters name raw_parameters) (\<lambda>parameters.
     bindE (checkParametersSize name parameters 1) (\<lambda>u.
     bindE (checkParameterType name (parameters ! 0) VALUE) (\<lambda>u.
       let name = formatHelperName name targetField parameters
       in if \<not> re2_ok re2 (m_value (parameters ! 0)) then
            Inl (RuntimeError (dq @ name @ dq @ '' function: Invalid regex: '' @ dq
                   @ m_value (parameters ! 0) @ dq @ ''.''))
          else Inr (Term name (regexOp re2 negated (m_value (parameters ! 0)) targetField name))))))"

definition opBuilderHelperRegexMatch :: "RE2 \<Rightarrow> any \<Rightarrow> exn + Expression" where
  "opBuilderHelperRegexMatch re2 defn = regexBuilder re2 False defn"

definition opBuilderHelperRegexNotMatch :: "RE2 \<Rightarrow> any \<Rightarrow> exn + Expression" where
  "opBuilderHelperRegexNotMatch re2 defn = regexBuilder re2 True defn"

subsection \<open>IP filters\<close>

text \<open>
  \<open>utils::ip::IPv4ToUInt\<close> and \<open>utils::ip::IPv4MaskUInt\<close> are not part of the sources;
  the builder takes them as parameters. Both either give a 32-bit unsigned number or
  throw.
\<close>

record IpUtils =
  ip_IPv4ToUInt :: "string \<Rightarrow> exn + 32 word"
  ip_IPv4MaskUInt :: "string \<Rightarrow> exn + 32 word"

text \<open>The loop that checks that every parameter is a value.\<close>

fun checkParameterTypes :: "string \<Rightarrow> Parameter list \<Rightarrow> ParameterType \<Rightarrow> exn + unit" where
  "checkParameterTypes name [] ty = Inr ()"
| "checkParameterTypes name (parameter # rest) ty =
     bindE (checkParameterType name parameter ty) (\<lambda>u. checkParameterTypes name rest ty)"

definition ipCidrOp :: "IpUtils \<Rightarrow> 32 word \<Rightarrow> 32 word \<Rightarrow> string \<Rightarrow> string \<Rightarrow> EngineOp" where
  "ipCidrOp ip net_lower net_upper targetField name event st =
     (let successTrace = ''['' @ name @ ''] -> Success'';
          failureTrace1 = ''['' @ name @ ''] -> Failure: Target field '' @ sq @ targetField @ sq
                            @ '' not found'';
          failureTrace2 = ''['' @ name @ ''] -> Failure: IPv4 address '';
          failureTrace3 = ''['' @ name @ ''] -> Failure: IP address is not in CIDR''
      in case getString (st event) targetField of
           None \<Rightarrow> Inr (makeFailure event failureTrace1, st)
         | Some resolvedField \<Rightarrow>
             (case ip_IPv4ToUInt ip resolvedField of
                Inl e \<Rightarrow>
                  Inr (makeFailure event
                         (failureTrace2 @ sq @ resolvedField @ sq
                            @ '' could not be converted to int: '' @ what e), st)
              | Inr ipv \<Rightarrow>
                  if net_lower \<le> ipv \<and> ipv \<le> net_upper
                  then Inr (makeSuccess event successTrace, st)
                  else Inr (makeFailure event failureTrace3, st)))"

definition opBuilderHelperIPCIDR :: "IpUtils \<Rightarrow> any \<Rightarrow> exn + Expression" where
  "opBuilderHelperIPCIDR ip defn =
     bindE (extractDefinition defn) (\<lambda>(targetField, name, raw_parameters).
     bindE (processParameters name raw_parameters) (\<lambda>parameters.
     bindE (checkParametersSize name parameters 2) (\<lambda>u.
     bindE (checkParameterTypes name parameters VALUE) (\<lambda>u.
       let name = formatHelperName name targetField parameters
       in bindE (case ip_IPv4ToUInt ip (m_value (parameters ! 0)) of
                   Inl e \<Rightarrow>
                     Inl (RuntimeError (dq @ name @ dq @ '' function: IPv4 address '' @ dq
                            @ to_string 0 @ dq @ '' could not be converted to int: '' @ what e))
                 | Inr network \<Rightarrow> Inr network) (\<lambda>network.
          bindE (case ip_IPv4MaskUInt ip (m_value (parameters ! 1)) of
                   Inl e \<Rightarrow>
                     Inl (RuntimeError (dq @ name @ dq @ '' function: IPv4 Mask '' @ dq
                            @ m_value (parameters ! 1) @ dq
                            @ '' could not be converted to int: '' @ what e))
                 | Inr m \<Rightarrow> Inr m) (\<lambda>netmask.
            let net_lower = network AND netmask;
                net_upper = net_lower OR (NOT netmask)
            in Inr (Term name (ipCidrOp ip net_lower net_upper targetField name))))))))"

subsection \<open>Existence filters\<close>

text \<open>
  The \<open>Term\<close> of \<open>exists\<close> (\<open>negated = False\<close>) and of \<open>not_exists\<close>
  (\<open>negated = True\<close>).
\<close>

definition existsOp :: "bool \<Rightarrow> string \<Rightarrow> string \<Rightarrow> EngineOp" where
  "existsOp negated targetField name event st =
     (let successTrace = ''['' @ name @ ''] -> Success'';
          failureTrace = ''['' @ name @ ''] -> Failure: Target field '' @ sq @ targetField @ sq
                           @ (if negated then '' does exist'' else '' does not exist'')
      in if exists_path (st event) targetField \<noteq> negated
         then Inr (makeSuccess event successTrace, st)
         else Inr (makeFailure event failureTrace, st))"

definition existsBuilder :: "bool \<Rightarrow> any \<Rightarrow> exn + Expression" where
  "existsBuilder negated defn =
     bindE (extractDefinition defn) (\<lambda>(targetField, name, rawParameters).
     bindE (processParameters name rawParameters) (\<lambda>parameters.
     bindE (checkParametersSize name parameters 0) (\<lambda>u.
       let name = formatHelperName name targetField parameters
       in Inr (Term name (existsOp negated targetField name)))))"

definition opBuilderHelperExists :: "any \<Rightarrow> exn + Expression" where
  "opBuilderHelperExists defn = existsBuilder False defn"

definition opBuilderHelperNotExists :: "any \<Rightarrow> exn + Expression" where
  "opBuilderHelperNotExists defn = existsBuilder True defn"

subsection \<open>Array filters\<close>

text \<open>
  The loop over the parameters of \<open>array_contains\<close>. A reference that resolves gives the
  value to look for, one that does not is skipped; a value is looked for as a string.
  \<open>jeq\<close> is the \<open>operator==\<close> of \<open>json::Json\<close>, which is not part of the sources.
\<close>

fun containsLoop :: "(JValue \<Rightarrow> JValue \<Rightarrow> bool) \<Rightarrow> Json \<Rightarrow> JValue list \<Rightarrow> Parameter list \<Rightarrow> bool" where
  "containsLoop jeq doc resolvedArray [] = False"
| "containsLoop jeq doc resolvedArray (parameter # rest) =
     (case m_type parameter of
        REFERENCE \<Rightarrow>
          (case getJson doc (m_value parameter) of
             Some cmpValue \<Rightarrow>
               if list_ex (\<lambda>v. jeq v cmpValue) resolvedArray then True
               else containsLoop jeq doc resolvedArray rest
           | None \<Rightarrow> containsLoop jeq doc resolvedArray rest)
      | VALUE \<Rightarrow>
          if list_ex (\<lambda>v. jeq v (JString (m_value parameter))) resolvedArray then True
          else containsLoop jeq doc resolvedArray rest)"

definition containsStringOp ::
  "(JValue \<Rightarrow> JValue \<Rightarrow> bool) \<Rightarrow> Parameter list \<Rightarrow> string \<Rightarrow> string \<Rightarrow> EngineOp" where
  "containsStringOp jeq parameters targetField name event st =
     (let successTrace = ''['' @ name @ ''] -> Success'';
          failureTrace1 = ''['' @ name @ ''] -> Failure: Target field '' @ sq @ targetField @ sq
                            @ '' not found'';
          failureTrace2 = ''['' @ name @ ''] -> Failure: Target field '' @ sq @ targetField @ sq
                            @ '' is not an array'';
          failureTrace3 = ''['' @ name @ ''] -> Failure: Target array '' @ sq @ targetField @ sq
                            @ '' does not contain any of the parameters''
      in if \<not> exists_path (st event) targetField
         then Inr (makeFailure event failureTrace1, st)
         else (case getArray (st event) targetField of
                 None \<Rightarrow> Inr (makeFailure event failureTrace2, st)
               | Some resolvedArray \<Rightarrow>
                   if containsLoop jeq (st event) resolvedArray parameters
                   then Inr (makeSuccess event successTrace, st)
                   else Inr (makeFailure event failureTrace3, st)))"

definition opBuilderHelperContainsString ::
  "(JValue \<Rightarrow> JValue \<Rightarrow> bool) \<Rightarrow> any \<Rightarrow> exn + Expression" where
  "opBuilderHelperContainsString jeq defn =
     bindE (extractDefinition defn) (\<lambda>(targetField, name, rawParameters).
     bindE (processParameters name rawParameters) (\<lambda>parameters.
     bindE (checkParametersMinSize name parameters 1) (\<lambda>u.
       let name = formatHelperName name targetField parameters
       in Inr (Term name (containsStringOp jeq parameters targetField name)))))"

subsection \<open>Type filters\<close>

text \<open>
  The twelve builders from \<open>is_number\<close> to \<open>is_not_null\<close> have one shape: the field
  must exist, then the type predicate of the document decides. They differ in the
  predicate \<open>isType\<close>, in whether the predicate has to hold (\<open>expected\<close>) and in the
  words that end the failure trace.
\<close>

definition typeFilterOp ::
  "(Json \<Rightarrow> string \<Rightarrow> bool) \<Rightarrow> bool \<Rightarrow> string \<Rightarrow> string \<Rightarrow> string \<Rightarrow> EngineOp" where
  "typeFilterOp isType expected failureWords targetField name event st =
     (let successTrace = ''['' @ name @ ''] -> Success'';
          failureTrace = ''['' @ name @ ''] -> Failure: Target field '' @ sq @ targetField @ sq
                           @ failureWords;
          failureMissingValueTrace = ''['' @ name @ ''] -> Failure: Target field '' @ sq
                                       @ targetField @ sq @ '' not found''
      in if exists_path (st event) targetField then
           (if isType (st event) targetField = expected
            then Inr (makeSuccess event successTrace, st)
            else Inr (makeFailure event failureTrace, st))
         else Inr (makeFailure event failureMissingValueTrace, st))"

definition typeFilterBuilder ::
  "(Json \<Rightarrow> string \<Rightarrow> bool) \<Rightarrow> bool \<Rightarrow> string \<Rightarrow> any \<Rightarrow> exn + Expression" where
  "typeFilterBuilder isType expected failureWords defn =
     bindE (extractDefinition defn) (\<lambda>(targetField, name, rawParameters).
     bindE (processParameters name rawParameters) (\<lambda>parameters.
     bindE (checkParametersSize name parameters 0) (\<lambda>u.
       let name = formatHelperName name targetField parameters
       in Inr (Term name (typeFilterOp isType expected failureWords targetField name)))))"

definition opBuilderHelperIsNumber :: "any \<Rightarrow> exn + Expression" where
  "opBuilderHelperIsNumber = typeFilterBuilder isNumber True '' is not a number''"

definition opBuilderHelperIsNotNumber :: "any \<Rightarrow> exn + Expression" where
  "opBuilderHelperIsNotNumber = typeFilterBuilder isNumber False '' is a number''"

definition opBuilderHelperIsString :: "any \<Rightarrow> exn + Expression" where
  "opBuilderHelperIsString = typeFilterBuilder isString True '' is not a string''"

definition opBuilderHelperIsNotString :: "any \<Rightarrow> exn + Expression" where
  "opBuilderHelperIsNotString = typeFilterBuilder isString False '' is a string''"

definition opBuilderHelperIsBool :: "any \<Rightarrow> exn + Expression" where
  "opBuilderHelperIsBool = typeFilterBuilder isBool True '' is not a boolean''"

definition opBuilderHelperIsNotBool :: "any \<Rightarrow> exn + Expression" where
  "opBuilderHelperIsNotBool = typeFilterBuilder isBool False '' is a boolean''"

definition opBuilderHelperIsArray :: "any \<Rightarrow> exn + Expression" where
  "opBuilderHelperIsArray = typeFilterBuilder isArray True '' is not an array''"

definition opBuilderHelperIsNotArray :: "any \<Rightarrow> exn + Expression" where
  "opBuilderHelperIsNotArray = typeFilterBuilder isArray False '' is an array''"

definition opBuilderHelperIsObject :: "any \<Rightarrow> exn + Expression" where
  "opBuilderHelperIsObject = typeFilterBuilder isObject True '' is not an object''"

definition opBuilderHelperIsNotObject :: "any \<Rightarrow> exn + Expression" where
  "opBuilderHelperIsNotObject = typeFilterBuilder isObject False '' is an object''"

definition opBuilderHelperIsNull :: "any \<Rightarrow> exn + Expression" where
  "opBuilderHelperIsNull = typeFilterBuilder isNull True '' is not null''"

definition opBuilderHelperIsNotNull :: "any \<Rightarrow> exn + Expression" where
  "opBuilderHelperIsNotNull = typeFilterBuilder isNull False '' is null''"

text \<open>
  \<open>is_true\<close> (\<open>wanted = True\<close>) and \<open>is_false\<close> (\<open>wanted = False\<close>) read the field with
  \<open>getBool\<close>: the trace for a missing value is returned whenever \<open>getBool\<close> has no
  value.
\<close>

definition boolFilterOp :: "bool \<Rightarrow> string \<Rightarrow> string \<Rightarrow> EngineOp" where
  "boolFilterOp wanted targetField name event st =
     (let successTrace = ''['' @ name @ ''] -> Success'';
          failureTrace = ''['' @ name @ ''] -> Failure: Target field '' @ sq @ targetField @ sq
                           @ (if wanted then '' is false'' else '' is true'');
          failureMissingValueTrace = ''['' @ name @ ''] -> Failure: Target field '' @ sq
                                       @ targetField @ sq @ '' not found''
      in case getBool (st event) targetField of
           Some b \<Rightarrow>
             if b = wanted
             then Inr (makeSuccess event successTrace, st)
             else Inr (makeFailure event failureTrace, st)
         | None \<Rightarrow> Inr (makeFailure event failureMissingValueTrace, st))"

definition boolFilterBuilder :: "bool \<Rightarrow> any \<Rightarrow> exn + Expression" where
  "boolFilterBuilder wanted defn =
     bindE (extractDefinition defn) (\<lambda>(targetField, name, rawParameters).
     bindE (processParameters name rawParameters) (\<lambda>parameters.
     bindE (checkParametersSize name parameters 0) (\<lambda>u.
       let name = formatHelperName name targetField parameters
       in Inr (Term name (boolFilterOp wanted targetField name)))))"

definition opBuilderHelperIsTrue :: "any \<Rightarrow> exn + Expression" where
  "opBuilderHelperIsTrue = boolFilterBuilder True"

definition opBuilderHelperIsFalse :: "any \<Rightarrow> exn + Expression" where
  "opBuilderHelperIsFalse = boolFilterBuilder False"

text \<open>
  The idiom of the unit tests: build the helper, take the function of the \<open>Term\<close> it
  returns and call it on an event.
\<close>

definition runTerm :: "exn + Expression \<Rightarrow> Event \<Rightarrow> Store \<Rightarrow> exn + (Result \<times> Store)" where
  "runTerm built event st =
     bindE built (\<lambda>expr.
       case getFn expr of
         None \<Rightarrow> Inl (RuntimeError ''Expression is not a Term'')
       | Some fn \<Rightarrow> fn event st)"

section \<open>External socket call: \<open>wdb_update\<close>\<close>

text \<open>
  Modelled from the spec: the builder \<open>opBuilderWdbUpdate\<close> (opBuilderWdb.cpp) is not
  part of the sources, only its unit tests are. The spec: arity 1; the request string is
  the literal or the string a reference resolves to; the request is sent over a stream
  socket and the reply is read; \<open>true\<close> is written to the target field iff the reply
  begins with \<open>ok\<close> (optionally followed by whitespace and a payload), \<open>false\<close>
  otherwise; the term succeeds whatever the verdict; socket errors are failures. The
  unit tests add that a reference that is missing or resolves to the empty string is a
  failure. The socket exchange is the parameter \<open>query\<close>: the reply to a request, or
  \<open>None\<close> for an I/O error. The spec does not give the texts of the traces.
\<close>

text \<open>
  Modelled from the spec: the verdict on a reply. It is \<open>ok\<close> alone, or \<open>ok\<close> followed by a white-space
  character (space, tab, line feed, vertical tab, form feed or carriage return) and a
  payload, which may be empty.
\<close>

definition replyIsOk :: "string \<Rightarrow> bool" where
  "replyIsOk reply =
     (take 2 reply = ''ok''
      \<and> (case drop 2 reply of [] \<Rightarrow> True | c # rest \<Rightarrow> isspace c))"

definition wdbUpdateOp :: "(string \<Rightarrow> string option) \<Rightarrow> Parameter \<Rightarrow> string \<Rightarrow> string \<Rightarrow> EngineOp" where
  "wdbUpdateOp query parameter targetField name event st =
     (let successTrace = ''['' @ name @ ''] -> Success'';
          failureTrace1 = ''['' @ name @ ''] -> Failure: Parameter '' @ dq @ m_value parameter
                            @ dq @ '' not found'';
          failureTrace2 = ''['' @ name @ ''] -> Failure: The query is empty'';
          failureTrace3 = ''['' @ name @ ''] -> Failure: Socket error'';
          request = (case m_type parameter of
                       VALUE \<Rightarrow> Some (m_value parameter)
                     | REFERENCE \<Rightarrow> getString (st event) (m_value parameter))
      in case request of
           None \<Rightarrow> Inr (makeFailure event failureTrace1, st)
         | Some completeQuery \<Rightarrow>
             if completeQuery = [] then Inr (makeFailure event failureTrace2, st)
             else (case query completeQuery of
                     None \<Rightarrow> Inr (makeFailure event failureTrace3, st)
                   | Some reply \<Rightarrow>
                       Inr (makeSuccess event successTrace,
                            st(event := setBool (st event) (replyIsOk reply) targetField))))"

definition opBuilderWdbUpdate :: "(string \<Rightarrow> string option) \<Rightarrow> any \<Rightarrow> exn + Expression" where
  "opBuilderWdbUpdate query defn =
     bindE (extractDefinition defn) (\<lambda>(targetField, name, rawParameters).
     bindE (processParameters name rawParameters) (\<lambda>parameters.
     bindE (checkParametersSize name parameters 1) (\<lambda>u.
       let name = formatHelperName name targetField parameters
       in Inr (Term name (wdbUpdateOp query (parameters ! 0) targetField name)))))"

section \<open>Policy composer\<close>

text \<open>
  Modelled from the spec: the policy composer (\<open>Environment::getExpression\<close> and the
  asset graphs behind it) is not part of the sources, only its unit test is. The spec:
  the decoders form a graph through \<open>parents\<close>; the decoder graph is an \<open>Or\<close> over the
  root decoders, and a decoder with children becomes
  \<open>Implication(<name>Node, D_expr, Or(children))\<close>; rules and outputs likewise under
  \<open>Broadcast\<close>, with the roots \<open>rulesInput\<close> and \<open>outputsInput\<close>; a filter wraps the
  children of each of its targets in \<open>Implication(filter, Or/Broadcast(children))\<close>; an
  asset whose parent is missing and a filter without a valid target are compiler errors;
  the root is \<open>Chain("policyRoot", decoderGraph, ruleGraph, outputGraph)\<close> without the
  absent graphs; siblings keep the document order. The spec takes the graphs to be
  acyclic; here a cycle is a compiler error. The spec does not say how several filters
  of one target combine, nor what the filter of a target without children wraps; here
  the filters are applied one after the other in document order, each to the children
  the target has by then, and a target without children has the empty list of them. The
  spec does not name the inner \<open>Or\<close> and \<open>Broadcast\<close> nodes; they are called
  \<open>children\<close>. An asset carries the expression the asset compiler produced for it.
\<close>

datatype AssetType = DECODER | RULE | OUTPUT | FILTER

record Asset =
  asset_name :: string
  asset_type :: AssetType
  asset_expr :: Expression
  asset_parents :: "string list"
  asset_targets :: "string list"

record Policy =
  policy_name :: string
  policy_assets :: "Asset list"

datatype OperationKind = OrKind | BroadcastKind

fun childrenKind :: "AssetType \<Rightarrow> OperationKind" where
  "childrenKind DECODER = OrKind"
| "childrenKind RULE = BroadcastKind"
| "childrenKind OUTPUT = BroadcastKind"
| "childrenKind FILTER = BroadcastKind"

fun mkOperation :: "OperationKind \<Rightarrow> string \<Rightarrow> Expression list \<Rightarrow> Expression" where
  "mkOperation OrKind name operands = Or name operands"
| "mkOperation BroadcastKind name operands = Broadcast name operands"

definition assetsOfType :: "Policy \<Rightarrow> AssetType \<Rightarrow> Asset list" where
  "assetsOfType p ty = filter (\<lambda>a. asset_type a = ty) (policy_assets p)"

definition rootsOf :: "Policy \<Rightarrow> AssetType \<Rightarrow> Asset list" where
  "rootsOf p ty = filter (\<lambda>a. asset_parents a = []) (assetsOfType p ty)"

definition childrenOf :: "Policy \<Rightarrow> Asset \<Rightarrow> Asset list" where
  "childrenOf p a =
     filter (\<lambda>c. asset_type c = asset_type a \<and> asset_name a \<in> set (asset_parents c))
       (policy_assets p)"

definition filtersOf :: "Policy \<Rightarrow> Asset \<Rightarrow> Asset list" where
  "filtersOf p a =
     filter (\<lambda>f. asset_type f = FILTER \<and> asset_name a \<in> set (asset_targets f))
       (policy_assets p)"

text \<open>
  Modelled from the spec: each filter of a target, in document order, wraps the children
  the target has at that point in \<open>Implication(filter, Or/Broadcast(children))\<close>, so
  that the target is left with that one child.
\<close>

fun gate :: "OperationKind \<Rightarrow> Asset list \<Rightarrow> Expression list \<Rightarrow> Expression list" where
  "gate kind [] children = children"
| "gate kind (f # fs) children =
     gate kind fs
       [Implication (asset_name f @ ''Node'') (asset_expr f)
          (mkOperation kind ''children'' children)]"

fun sequenceE :: "(exn + 'a) list \<Rightarrow> exn + 'a list" where
  "sequenceE [] = Inr []"
| "sequenceE (x # xs) = bindE x (\<lambda>v. bindE (sequenceE xs) (\<lambda>vs. Inr (v # vs)))"

text \<open>
  Modelled from the spec: the node of an asset. An asset with neither children nor
  filters is its own expression. Any other asset is the \<open>Implication\<close> of its
  expression and the \<open>Or\<close> or \<open>Broadcast\<close> of its children, the children wrapped by
  every filter that has the asset as a target; a target without children has the empty
  list of children for its filters to wrap. \<open>unvisited\<close> holds the names of the assets
  that are not on the path from the root to this asset; meeting an asset a second time
  on one path is a cycle.
\<close>

function buildNode :: "Policy \<Rightarrow> string list \<Rightarrow> Asset \<Rightarrow> exn + Expression" where
  "buildNode p unvisited a =
     (if asset_name a \<notin> set unvisited then
        Inl (RuntimeError (''CompilerError: cycle through asset '' @ asset_name a))
      else if childrenOf p a = [] \<and> filtersOf p a = [] then Inr (asset_expr a)
      else
        bindE (sequenceE (map (buildNode p (remove1 (asset_name a) unvisited)) (childrenOf p a)))
          (\<lambda>nodes.
             Inr (Implication (asset_name a @ ''Node'') (asset_expr a)
                    (mkOperation (childrenKind (asset_type a)) ''children''
                       (gate (childrenKind (asset_type a)) (filtersOf p a) nodes)))))"
  by pat_completeness auto
termination
  by (relation "measure (\<lambda>(p, unvisited, a). length unvisited)") (auto simp: length_remove1 dest: length_pos_if_in_set)

declare buildNode.simps [simp del]

definition orphans :: "Policy \<Rightarrow> Asset list" where
  "orphans p =
     filter (\<lambda>a. asset_type a \<noteq> FILTER
                \<and> list_ex (\<lambda>parent. parent \<notin> set (map asset_name (assetsOfType p (asset_type a))))
                     (asset_parents a))
       (policy_assets p)"

definition filtersWithoutTarget :: "Policy \<Rightarrow> Asset list" where
  "filtersWithoutTarget p =
     filter (\<lambda>f. asset_type f = FILTER
                \<and> \<not> list_ex (\<lambda>a. asset_type a \<noteq> FILTER \<and> asset_name a \<in> set (asset_targets f))
                       (policy_assets p))
       (policy_assets p)"

text \<open>
  Modelled from the spec: the assets that lie on a cycle of parents or below one. An
  asset is settled once all its parents are; \<open>settle\<close> is one round of that, and as
  many rounds as the policy has assets, from no asset at all, settle every asset of an
  acyclic graph.
\<close>

definition settle :: "Policy \<Rightarrow> (AssetType \<times> string) list \<Rightarrow> (AssetType \<times> string) list" where
  "settle p settled =
     map (\<lambda>a. (asset_type a, asset_name a))
       (filter (\<lambda>a. asset_type a \<noteq> FILTER
                   \<and> list_all (\<lambda>parent. (asset_type a, parent) \<in> set settled)
                        (asset_parents a))
          (policy_assets p))"

definition cyclic :: "Policy \<Rightarrow> Asset list" where
  "cyclic p =
     filter (\<lambda>a. asset_type a \<noteq> FILTER
                \<and> (asset_type a, asset_name a)
                    \<notin> set ((settle p ^^ length (policy_assets p)) []))
       (policy_assets p)"

text \<open>The graph of one asset type: absent when the policy has no asset of the type.\<close>

definition buildGraph :: "Policy \<Rightarrow> AssetType \<Rightarrow> string \<Rightarrow> exn + Expression list" where
  "buildGraph p ty inputName =
     (if assetsOfType p ty = [] then Inr []
      else bindE (sequenceE (map (buildNode p (map asset_name (policy_assets p))) (rootsOf p ty)))
             (\<lambda>nodes. Inr [mkOperation (childrenKind ty) inputName nodes]))"

definition getExpression :: "Policy \<Rightarrow> exn + Expression" where
  "getExpression p =
     (if orphans p \<noteq> [] then
        Inl (RuntimeError (''CompilerError: missing parent of asset '' @ asset_name (hd (orphans p))))
      else if filtersWithoutTarget p \<noteq> [] then
        Inl (RuntimeError (''CompilerError: no valid target for filter ''
               @ asset_name (hd (filtersWithoutTarget p))))
      else if cyclic p \<noteq> [] then
        Inl (RuntimeError (''CompilerError: cycle through asset '' @ asset_name (hd (cyclic p))))
      else
        bindE (buildGraph p DECODER ''decodersInput'') (\<lambda>decoderGraph.
        bindE (buildGraph p RULE ''rulesInput'') (\<lambda>ruleGraph.
        bindE (buildGraph p OUTPUT ''outputsInput'') (\<lambda>outputGraph.
          Inr (Chain ''policyRoot'' (decoderGraph @ ruleGraph @ outputGraph))))))"

section \<open>IPv4 addresses and masks\<close>

text \<open>
  Modelled from the spec: \<open>utils::ip::IPv4ToUInt\<close> and \<open>utils::ip::IPv4MaskUInt\<close>
  are not part of the sources. The spec: an address is a dotted quad, a mask is accepted
  either as a prefix length or as a dotted quad. Here a dotted quad is four decimal
  numbers up to 255 and a prefix length is a decimal number from 0 to 32. These
  definitions serve to run the CIDR helper on concrete addresses.
\<close>

definition parseOctet :: "string \<Rightarrow> nat option" where
  "parseOctet s =
     (if s \<noteq> [] \<and> list_all isdigit s \<and> length s \<le> 3 \<and> digits_value s 0 \<le> 255
      then Some (nat (digits_value s 0)) else None)"

definition IPv4ToUInt :: "string \<Rightarrow> exn + 32 word" where
  "IPv4ToUInt ipStr =
     (case map parseOctet (segments ipStr (CHR ''.'')) of
        [Some a, Some b, Some c, Some d] \<Rightarrow>
          Inr (push_bit 24 (word_of_nat a) OR push_bit 16 (word_of_nat b)
                 OR push_bit 8 (word_of_nat c) OR word_of_nat d)
      | _ \<Rightarrow> Inl (InvalidArgument (''Invalid IPv4 address: '' @ ipStr)))"

definition IPv4MaskUInt :: "string \<Rightarrow> exn + 32 word" where
  "IPv4MaskUInt maskStr =
     (if CHR ''.'' \<in> set maskStr then IPv4ToUInt maskStr
      else if maskStr \<noteq> [] \<and> list_all isdigit maskStr \<and> length maskStr \<le> 2
              \<and> digits_value maskStr 0 \<le> 32
      then Inr (if digits_value maskStr 0 = 0 then 0
                else push_bit (32 - nat (digits_value maskStr 0)) (- 1))
      else Inl (InvalidArgument (''Invalid IPv4 mask: '' @ maskStr)))"

definition ipUtils :: IpUtils where
  "ipUtils = \<lparr>ip_IPv4ToUInt = IPv4ToUInt, ip_IPv4MaskUInt = IPv4MaskUInt\<rparr>"

section \<open>The helpers the properties range over\<close>

text \<open>
  The int comparison helpers (\<open>int_equal\<close>, \<open>int_not_equal\<close>, \<open>int_greater\<close>,
  \<open>int_greater_or_equal\<close>, \<open>int_less\<close>, \<open>int_less_or_equal\<close>), each with the
  relation on integers that its name stands for.
\<close>

definition intComparisonHelpers :: "((any \<Rightarrow> exn + Expression) \<times> (int \<Rightarrow> int \<Rightarrow> bool)) list" where
  "intComparisonHelpers =
     [(opBuilderHelperIntEqual, (\<lambda>l r. l = r)),
      (opBuilderHelperIntNotEqual, (\<lambda>l r. l \<noteq> r)),
      (opBuilderHelperIntGreaterThan, (\<lambda>l r. l > r)),
      (opBuilderHelperIntGreaterThanEqual, (\<lambda>l r. l \<ge> r)),
      (opBuilderHelperIntLessThan, (\<lambda>l r. l < r)),
      (opBuilderHelperIntLessThanEqual, (\<lambda>l r. l \<le> r))]"

text \<open>A store in which every event reference points to the same document.\<close>

definition singleStore :: "Json \<Rightarrow> Store" where
  "singleStore doc = (\<lambda>event. doc)"

text \<open>
  The twelve type tests from \<open>is_number\<close> to \<open>is_not_null\<close>, each with the type
  predicate it asks and the answer it wants: the helper's test holds on a present field
  iff the predicate gives that answer.
\<close>

definition typeTestHelpers ::
  "((any \<Rightarrow> exn + Expression) \<times> (Json \<Rightarrow> string \<Rightarrow> bool) \<times> bool) list" where
  "typeTestHelpers =
     [(opBuilderHelperIsNumber, isNumber, True),
      (opBuilderHelperIsNotNumber, isNumber, False),
      (opBuilderHelperIsString, isString, True),
      (opBuilderHelperIsNotString, isString, False),
      (opBuilderHelperIsBool, isBool, True),
      (opBuilderHelperIsNotBool, isBool, False),
      (opBuilderHelperIsArray, isArray, True),
      (opBuilderHelperIsNotArray, isArray, False),
      (opBuilderHelperIsObject, isObject, True),
      (opBuilderHelperIsNotObject, isObject, False),
      (opBuilderHelperIsNull, isNull, True),
      (opBuilderHelperIsNotNull, isNull, False)]"

text \<open>\<open>is_true\<close> and \<open>is_false\<close>, each with the boolean it wants in the field.\<close>

definition boolValueHelpers :: "((any \<Rightarrow> exn + Expression) \<times> bool) list" where
  "boolValueHelpers = [(opBuilderHelperIsTrue, True), (opBuilderHelperIsFalse, False)]"

text \<open>
  All the filter helpers of opBuilderHelperFilter.cpp, over a regular-expression
  library, the address parsers and the equality of JSON values.
\<close>

definition filterHelpers ::
  "RE2 \<Rightarrow> IpUtils \<Rightarrow> (JValue \<Rightarrow> JValue \<Rightarrow> bool) \<Rightarrow> (any \<Rightarrow> exn + Expression) list" where
  "filterHelpers re2 ip jeq =
     [opBuilderHelperIntEqual, opBuilderHelperIntNotEqual, opBuilderHelperIntLessThan,
      opBuilderHelperIntLessThanEqual, opBuilderHelperIntGreaterThan,
      opBuilderHelperIntGreaterThanEqual,
      opBuilderHelperStringEqual, opBuilderHelperStringNotEqual,
      opBuilderHelperStringGreaterThan, opBuilderHelperStringGreaterThanEqual,
      opBuilderHelperStringLessThan, opBuilderHelperStringLessThanEqual,
      opBuilderHelperStringStarts, opBuilderHelperStringContains,
      opBuilderHelperRegexMatch re2, opBuilderHelperRegexNotMatch re2,
      opBuilderHelperIPCIDR ip,
      opBuilderHelperExists, opBuilderHelperNotExists,
      opBuilderHelperContainsString jeq,
      opBuilderHelperIsNumber, opBuilderHelperIsNotNumber, opBuilderHelperIsString,
      opBuilderHelperIsNotString, opBuilderHelperIsBool, opBuilderHelperIsNotBool,
      opBuilderHelperIsArray, opBuilderHelperIsNotArray, opBuilderHelperIsObject,
      opBuilderHelperIsNotObject, opBuilderHelperIsNull, opBuilderHelperIsNotNull,
      opBuilderHelperIsTrue, opBuilderHelperIsFalse]"

text \<open>
  An operation that on every call returns a result with the event reference it was given
  and leaves the store as it was, unless the \<open>std::out_of_range\<close> of \<open>std::stoi\<close>
  leaves it.
\<close>

definition readOnly :: "EngineOp \<Rightarrow> bool" where
  "readOnly fn =
     (\<forall>event st. (\<exists>res. fn event st = Inr (res, st) \<and> payload res = event)
                 \<or> fn event st = Inl (OutOfRange ''stoi''))"

definition readOnlyTerm :: "Expression \<Rightarrow> bool" where
  "readOnlyTerm expr = (\<exists>name fn. expr = Term name fn \<and> readOnly fn)"

text \<open>
  A stand-in for the regular-expression library, to run helpers on concrete inputs: it
  accepts every pattern and matches a pattern where the text contains it literally.
\<close>

definition literalRE2 :: RE2 where
  "literalRE2 = \<lparr>re2_ok = (\<lambda>pattern. True), re2_PartialMatch = string_find\<rparr>"

text \<open>A socket peer that answers every request with the same reply, as the unit tests do.\<close>

definition replyWith :: "string \<Rightarrow> string \<Rightarrow> string option" where
  "replyWith reply request = Some reply"

text \<open>
  The policy of the unit test \<open>CompleteEnvironment\<close>: three root decoders, two children
  of \<open>decoder1\<close> behind \<open>filter1\<close>, one decoder below both \<open>decoder2\<close> and
  \<open>decoder3\<close>, two root rules, one of them with a child, and one output. Every asset
  carries an expression of the shape the asset compiler gives it: an \<open>Implication\<close> named
  after the asset, and an \<open>And\<close> for the filter.
\<close>

definition assetOf :: "string \<Rightarrow> AssetType \<Rightarrow> string list \<Rightarrow> Asset" where
  "assetOf name ty parents =
     \<lparr>asset_name = name, asset_type = ty,
      asset_expr = Implication name (And ''condition'' []) (Chain ''stages'' []),
      asset_parents = parents, asset_targets = []\<rparr>"

definition filterOf :: "string \<Rightarrow> string list \<Rightarrow> Asset" where
  "filterOf name targets =
     \<lparr>asset_name = name, asset_type = FILTER, asset_expr = And name [],
      asset_parents = [], asset_targets = targets\<rparr>"

definition completeEnv :: Policy where
  "completeEnv =
     \<lparr>policy_name = ''completeEnv'',
      policy_assets =
        [assetOf ''decoder1'' DECODER [],
         assetOf ''decoder2'' DECODER [],
         assetOf ''decoder3'' DECODER [],
         assetOf ''decoder1_1'' DECODER [''decoder1''],
         assetOf ''decoder1_2'' DECODER [''decoder1''],
         assetOf ''decoder23_1'' DECODER [''decoder2'', ''decoder3''],
         filterOf ''filter1'' [''decoder1''],
         assetOf ''rule1'' RULE [],
         assetOf ''rule2'' RULE [],
         assetOf ''rule1_1'' RULE [''rule1''],
         assetOf ''output1'' OUTPUT []]\<rparr>"

text \<open>
  A policy with one decoder and no other asset below it, gated by two filters, with one
  rule and one output.
\<close>

definition gatedLeafEnv :: Policy where
  "gatedLeafEnv =
     \<lparr>policy_name = ''gatedLeafEnv'',
      policy_assets =
        [assetOf ''decoder1'' DECODER [],
         filterOf ''filter1'' [''decoder1''],
         filterOf ''filter2'' [''decoder1''],
         assetOf ''rule1'' RULE [],
         assetOf ''output1'' OUTPUT []]\<rparr>"

text \<open>A policy with a root decoder and two decoders that are each other's parent.\<close>

definition cycleEnv :: Policy where
  "cycleEnv =
     \<lparr>policy_name = ''cycleEnv'',
      policy_assets =
        [assetOf ''decoder1'' DECODER [],
         assetOf ''decoder2'' DECODER [''decoder3''],
         assetOf ''decoder3'' DECODER [''decoder2'']]\<rparr>"

section \<open>Properties of \<open>split\<close> and \<open>join\<close>\<close>

lemma segments_nonempty: "segments str d \<noteq> []"
  by (induction str) (auto split: list.splits)

lemma find_char_None_segments: "find_char d str = None \<Longrightarrow> segments str d = [str]"
  by (induction str) (auto split: if_splits list.splits)

lemma find_char_Some_segments:
  "find_char d str = Some pos \<Longrightarrow>
   segments str d = take pos str # segments (drop (pos + 1) str) d"
  by (induction str arbitrary: pos) (auto split: if_splits list.splits)

lemma split_loop_segments:
  "split_loop str d ret = (ret @ butlast (segments str d), last (segments str d))"
proof (induction str d ret rule: split_loop.induct)
  case (1 str delimiter ret)
  show ?case
  proof (cases "find_char delimiter str")
    case None
    then show ?thesis
      by (subst split_loop.simps) (simp add: find_char_None_segments)
  next
    case (Some pos)
    then show ?thesis
      using "1.IH" [OF Some]
      by (subst split_loop.simps) (simp add: find_char_Some_segments segments_nonempty)
  qed
qed

lemma segments_single: "segments str d = [x] \<Longrightarrow> x = str"
proof (induction str arbitrary: x)
  case Nil
  then show ?case by simp
next
  case (Cons c cs)
  then show ?case
    using segments_nonempty [of cs d]
    by (cases "segments cs d") (auto split: if_splits)
qed

lemma last_segments_empty:
  "last (segments str d) = [] \<longleftrightarrow> str = [] \<or> last str = d"
proof (induction str)
  case Nil
  then show ?case by simp
next
  case (Cons c cs)
  then show ?case
    using segments_nonempty [of cs d] segments_single [of cs d "[]"]
    by (cases "segments cs d") (auto split: if_splits)
qed

lemma split_segments:
  "split str d = (if str = [] \<or> last str = d then butlast (segments str d) else segments str d)"
proof -
  have "split str d =
        (if last (segments str d) \<noteq> [] then butlast (segments str d) @ [last (segments str d)]
         else butlast (segments str d))"
    by (simp add: split_def split_loop_segments)
  then show ?thesis
    using last_segments_empty [of str d] segments_nonempty [of str d]
    by auto
qed

lemma segments_snoc: "segments (t @ [d]) d = segments t d @ [[]]"
proof (induction t)
  case Nil
  then show ?case by simp
next
  case (Cons c cs)
  then show ?case
    using segments_nonempty [of cs d] by (cases "segments cs d") auto
qed

lemma join_loop_acc:
  "join_loop (Suc i) ss sep sws acc = acc @ concat (map (\<lambda>x. sep @ x) ss)"
  by (induction ss arbitrary: i acc) auto

lemma join_Cons: "join (s # ss) sep False = s @ concat (map (\<lambda>x. sep @ x) ss)"
  by (simp add: join_def join_loop_acc)

lemma join_leading: "join ss sep True = concat (map (\<lambda>x. sep @ x) ss)"
  by (cases ss) (simp_all add: join_def join_loop_acc)

lemma concat_segments: "concat (map (\<lambda>x. [d] @ x) (segments cs d)) = d # cs"
proof (induction cs)
  case Nil
  then show ?case by simp
next
  case (Cons c cs)
  then show ?case
    using segments_nonempty [of cs d] by (cases "segments cs d") auto
qed

lemma join_segments: "join (segments t d) [d] False = t"
proof (induction t)
  case Nil
  then show ?case by (simp add: join_def)
next
  case (Cons c cs)
  obtain h r where seg: "segments cs d = h # r"
    using segments_nonempty [of cs d] by (cases "segments cs d") auto
  show ?case
  proof (cases "c = d")
    case True
    then show ?thesis
      using concat_segments [of d cs] by (simp add: join_Cons)
  next
    case False
    have "h @ concat (map (\<lambda>x. [d] @ x) r) = cs"
      using Cons.IH seg by (simp add: join_Cons)
    then show ?thesis using False seg by (simp add: join_Cons)
  qed
qed

lemma join_split_trailing: "join (split (t @ [d]) d) [d] False = t"
  by (simp add: split_segments segments_snoc join_segments)

text \<open>
  C10. \<open>split\<close> returns the segments of the input without the final one when that one is
  empty, that is, when the input is empty or ends with the delimiter; the other empty
  segments, at the start or between two delimiters, stay. So \<open>split "a:"\<close> is
  \<open>["a"]\<close> and \<open>split ""\<close> is the empty list, and on an input that ends with the
  delimiter \<open>join (split s d) d\<close> gives the input without its last character, not the
  input.
\<close>

theorem split_omits_final_empty_segment:
  "split str d = (if str = [] \<or> last str = d then butlast (segments str d) else segments str d)
   \<and> (str \<noteq> [] \<and> last str = d \<longrightarrow>
        join (split str d) [d] False = butlast str \<and> join (split str d) [d] False \<noteq> str)
   \<and> split ''a:'' (CHR '':'') = [''a'']
   \<and> split '''' (CHR '':'') = []
   \<and> split ''a::b'' (CHR '':'') = [''a'', '''', ''b'']
   \<and> split '':a'' (CHR '':'') = ['''', ''a'']"
proof -
  have trailing: "join (split str d) [d] False = butlast str \<and> join (split str d) [d] False \<noteq> str"
    if "str \<noteq> []" "last str = d"
  proof -
    from that have decomp: "str = butlast str @ [d]"
      by (metis append_butlast_last_id)
    then have "join (split str d) [d] False = butlast str"
      using join_split_trailing [of "butlast str" d] by simp
    moreover have "butlast str \<noteq> str"
      using decomp by (metis append_self_conv list.distinct(1))
    ultimately show ?thesis by simp
  qed
  have ex: "split ''a:'' (CHR '':'') = [''a'']" "split '''' (CHR '':'') = []"
    "split ''a::b'' (CHR '':'') = [''a'', '''', ''b'']" "split '':a'' (CHR '':'') = ['''', ''a'']"
    by (simp_all add: split_segments)
  show ?thesis using split_segments [of str d] trailing ex by blast
qed

theorem split_omits_final_empty_segment_witness:
  "''a:'' \<noteq> [] \<and> last ''a:'' = CHR '':''
   \<and> split ''a:'' (CHR '':'') = [''a'']
   \<and> join (split ''a:'' (CHR '':'')) '':'' False = ''a''
   \<and> join (split ''a:'' (CHR '':'')) '':'' False \<noteq> ''a:''"
  using split_omits_final_empty_segment [of "''a:''" "CHR '':''"] by (simp add: join_def)

section \<open>String comparison helpers\<close>

lemmas builder_defs =
  opBuilderComparison_def extractDefinition_def bindE_def processParameter_def
  REFERENCE_ANCHOR_def char_at_def checkParametersSize_def checkParametersMinSize_def
  checkParameterType_def

lemmas stoi_defs = stoi_def isspace_def isdigit_def INT_MIN_def INT_MAX_def

text \<open>
  C1. The claim: on a present string target and a present operand, a string comparison
  helper succeeds iff the byte-lexicographic comparison holds, with no numeric
  validation. The code validates: the lambda of \<open>getStringCmpFunction\<close> passes the
  target string to \<open>std::stoi\<close> first and returns a failure when it is not numeric. On
  the input of the unit test \<open>Exec_less_than_true\<close> (helper \<open>string_less_or_equal\<close>,
  target \<open>/field2check\<close> holding \<open>"value1"\<close>, operand the value \<open>"value2"\<close>) the
  comparison \<open>"value1" <= "value2"\<close> holds and the helper returns a failure.
\<close>

theorem string_less_or_equal_rejects_non_numeric_target:
  "runTerm
     (opBuilderHelperStringLessThanEqual
        (AnyDefinition (''/field2check'', ''string_less_or_equal'', [''value2''])))
     0 (singleStore [''/field2check'' \<mapsto> JString ''value1''])
   = Inr (\<lparr>success = False, payload = 0,
            trace = ''[helper.string_less_or_equal[/field2check, value2]] -> Failure: Target field ''
                      @ sq @ ''/field2check'' @ sq @ '' or Parameter '' @ dq @ ''value2'' @ dq
                      @ '' have no valid arguments''\<rparr>,
          (singleStore [''/field2check'' \<mapsto> JString ''value1'']))
   \<and> stringCmpFunction LE ''value1'' ''value2''"
  by (simp add: runTerm_def opBuilderHelperStringLessThanEqual_def builder_defs
      formatHelperName_def getStringCmpFunction_def stringCmpOp_def getString_def
      validateNumericString_def stoi_defs makeFailure_def Let_def singleStore_def)

section \<open>Int comparison helpers\<close>

lemma comparison_single_parameter:
  "opBuilderComparison (AnyDefinition (targetField, name, [tok])) op t =
     bindE (processParameter name tok) (\<lambda>p.
       case t of
         TypeINT \<Rightarrow>
           bindE (getIntCmpFunction targetField op p (formatHelperName name targetField [p]))
             (\<lambda>fn. Inr (Term (formatHelperName name targetField [p]) fn))
       | TypeSTRING \<Rightarrow>
           bindE (getStringCmpFunction targetField op p (formatHelperName name targetField [p]))
             (\<lambda>fn. Inr (Term (formatHelperName name targetField [p]) fn)))"
  by (simp add: opBuilderComparison_def extractDefinition_def bindE_def checkParametersSize_def
      Let_def split: sum.splits Type.splits)

lemma int_helper_operator:
  assumes "(builder, compare) \<in> set intComparisonHelpers"
  shows "\<exists>op. (\<forall>defn. builder defn = opBuilderComparison defn op TypeINT)
              \<and> intCmpFunction op = Some compare"
  using assms
  by (auto simp: intComparisonHelpers_def opBuilderHelperIntEqual_def
      opBuilderHelperIntNotEqual_def opBuilderHelperIntGreaterThan_def
      opBuilderHelperIntGreaterThanEqual_def opBuilderHelperIntLessThan_def
      opBuilderHelperIntLessThanEqual_def)

lemma value_token: "char_at tok 0 \<noteq> CHR ''$'' \<Longrightarrow>
   processParameter name tok = Inr \<lparr>m_type = VALUE, m_value = tok\<rparr>"
  by (simp add: processParameter_def REFERENCE_ANCHOR_def)

lemma intCmpOp_target_missing:
  "getInt (st event) targetField = None \<Longrightarrow>
   intCmpOp targetField op p rv name event st =
     Inr (makeFailure event (''['' @ name @ ''] -> Failure: Target field '' @ sq @ targetField
            @ sq @ '' not found''), st)"
  by (simp add: intCmpOp_def)

lemma intCmpOp_reference_missing:
  "getInt (st event) targetField = Some l \<Longrightarrow> getInt (st event) path = None \<Longrightarrow>
   intCmpOp targetField op p (RString path) name event st =
     Inr (makeFailure event (''['' @ name @ ''] -> Failure: Parameter '' @ dq @ m_value p
            @ dq @ '' not found''), st)"
  by (simp add: intCmpOp_def)

lemma intCmpOp_compare:
  "getInt (st event) targetField = Some l \<Longrightarrow>
   (case rv of RString path \<Rightarrow> getInt (st event) path | RInt i \<Rightarrow> Some i) = Some r \<Longrightarrow>
   intCmpFunction op = Some compare \<Longrightarrow>
   \<exists>res. intCmpOp targetField op p rv name event st = Inr (res, st)
         \<and> payload res = event \<and> (success res \<longleftrightarrow> compare l r)"
  by (simp add: intCmpOp_def makeSuccess_def makeFailure_def)

lemma reference_token:
  "formatJsonPath rest = Inr path \<Longrightarrow>
   processParameter name (CHR ''$'' # rest) = Inr \<lparr>m_type = REFERENCE, m_value = path\<rparr>"
  by (simp add: processParameter_def REFERENCE_ANCHOR_def char_at_def)

lemma int_helper_on_value:
  assumes "\<And>defn. builder defn = opBuilderComparison defn op TypeINT"
    and "char_at tok 0 \<noteq> CHR ''$''" and "stoi tok = Inr r"
  shows "builder (AnyDefinition (targetField, name, [tok])) =
           Inr (Term (formatHelperName name targetField [\<lparr>m_type = VALUE, m_value = tok\<rparr>])
                  (intCmpOp targetField op \<lparr>m_type = VALUE, m_value = tok\<rparr> (RInt r)
                     (formatHelperName name targetField [\<lparr>m_type = VALUE, m_value = tok\<rparr>])))"
  using assms
  by (simp add: comparison_single_parameter value_token bindE_def getIntCmpFunction_def)

lemma int_helper_on_reference:
  assumes "\<And>defn. builder defn = opBuilderComparison defn op TypeINT"
    and "formatJsonPath rest = Inr path"
  shows "builder (AnyDefinition (targetField, name, [CHR ''$'' # rest])) =
           Inr (Term (formatHelperName name targetField [\<lparr>m_type = REFERENCE, m_value = path\<rparr>])
                  (intCmpOp targetField op \<lparr>m_type = REFERENCE, m_value = path\<rparr> (RString path)
                     (formatHelperName name targetField
                        [\<lparr>m_type = REFERENCE, m_value = path\<rparr>])))"
  using assms
  by (simp add: comparison_single_parameter reference_token bindE_def getIntCmpFunction_def)

text \<open>
  The six int comparison helpers on one operand, by what the operand is. A value that
  \<open>std::stoi\<close> does not accept makes the build throw a runtime error. A value that
  \<open>std::stoi\<close> reads as \<open>r\<close> builds a term that fails with the trace "Target field ...
  not found" when the target holds no int, and otherwise succeeds exactly when the
  comparison of the target with \<open>r\<close> holds. A reference \<open>$x\<close> builds a term on the
  pointer path of \<open>x\<close> that fails with "Target field ... not found" when the target
  holds no int, with "Parameter ... not found" when the target holds an int and the path
  does not, and otherwise succeeds exactly when the comparison of the two ints holds.
\<close>

lemma int_comparison_terms:
  assumes "(builder, compare) \<in> set intComparisonHelpers"
  shows
  "(char_at tok 0 \<noteq> CHR ''$'' \<longrightarrow> (\<exists>e. stoi tok = Inl e) \<longrightarrow>
      (\<exists>msg. builder (AnyDefinition (targetField, name, [tok])) = Inl (RuntimeError msg)))
   \<and> (\<forall>r. char_at tok 0 \<noteq> CHR ''$'' \<and> stoi tok = Inr r \<longrightarrow>
        (\<exists>fn. builder (AnyDefinition (targetField, name, [tok])) =
                Inr (Term (formatHelperName name targetField
                             [\<lparr>m_type = VALUE, m_value = tok\<rparr>]) fn)
           \<and> (\<forall>event st.
                (getInt (st event) targetField = None \<longrightarrow>
                   fn event st =
                     Inr (makeFailure event
                            (''['' @ formatHelperName name targetField
                                       [\<lparr>m_type = VALUE, m_value = tok\<rparr>]
                               @ ''] -> Failure: Target field '' @ sq @ targetField @ sq
                               @ '' not found''), st))
                \<and> (\<forall>l. getInt (st event) targetField = Some l \<longrightarrow>
                      (\<exists>res. fn event st = Inr (res, st)
                         \<and> (success res \<longleftrightarrow> compare l r))))))
   \<and> (\<forall>rest path. tok = CHR ''$'' # rest \<and> formatJsonPath rest = Inr path \<longrightarrow>
        (\<exists>fn. builder (AnyDefinition (targetField, name, [tok])) =
                Inr (Term (formatHelperName name targetField
                             [\<lparr>m_type = REFERENCE, m_value = path\<rparr>]) fn)
           \<and> (\<forall>event st.
                (getInt (st event) targetField = None \<longrightarrow>
                   fn event st =
                     Inr (makeFailure event
                            (''['' @ formatHelperName name targetField
                                       [\<lparr>m_type = REFERENCE, m_value = path\<rparr>]
                               @ ''] -> Failure: Target field '' @ sq @ targetField @ sq
                               @ '' not found''), st))
                \<and> (\<forall>l. getInt (st event) targetField = Some l \<longrightarrow>
                      (getInt (st event) path = None \<longrightarrow>
                         fn event st =
                           Inr (makeFailure event
                                  (''['' @ formatHelperName name targetField
                                             [\<lparr>m_type = REFERENCE, m_value = path\<rparr>]
                                     @ ''] -> Failure: Parameter '' @ dq @ path @ dq
                                     @ '' not found''), st))
                      \<and> (\<forall>r. getInt (st event) path = Some r \<longrightarrow>
                            (\<exists>res. fn event st = Inr (res, st)
                               \<and> (success res \<longleftrightarrow> compare l r)))))))"
proof -
  obtain op where b: "\<And>defn. builder defn = opBuilderComparison defn op TypeINT"
    and cmp: "intCmpFunction op = Some compare"
    using int_helper_operator [OF assms] by blast
  let ?d = "AnyDefinition (targetField, name, [tok])"
  have build_error: "\<exists>msg. builder ?d = Inl (RuntimeError msg)"
    if "char_at tok 0 \<noteq> CHR ''$''" "stoi tok = Inl e" for e
    using that
    by (simp add: b comparison_single_parameter value_token bindE_def getIntCmpFunction_def)
  have on_value:
    "\<exists>fn. builder ?d =
            Inr (Term (formatHelperName name targetField [\<lparr>m_type = VALUE, m_value = tok\<rparr>]) fn)
       \<and> (\<forall>event st.
            (getInt (st event) targetField = None \<longrightarrow>
               fn event st =
                 Inr (makeFailure event
                        (''['' @ formatHelperName name targetField
                                   [\<lparr>m_type = VALUE, m_value = tok\<rparr>]
                           @ ''] -> Failure: Target field '' @ sq @ targetField @ sq
                           @ '' not found''), st))
            \<and> (\<forall>l. getInt (st event) targetField = Some l \<longrightarrow>
                  (\<exists>res. fn event st = Inr (res, st) \<and> (success res \<longleftrightarrow> compare l r))))"
    if v: "char_at tok 0 \<noteq> CHR ''$'' \<and> stoi tok = Inr r" for r
  proof -
    let ?p = "\<lparr>m_type = VALUE, m_value = tok\<rparr>"
    let ?n = "formatHelperName name targetField [?p]"
    let ?fn = "intCmpOp targetField op ?p (RInt r) ?n"
    have built: "builder ?d = Inr (Term ?n ?fn)"
      using v by (intro int_helper_on_value b) simp_all
    have "\<forall>event st.
            (getInt (st event) targetField = None \<longrightarrow>
               ?fn event st =
                 Inr (makeFailure event
                        (''['' @ ?n @ ''] -> Failure: Target field '' @ sq @ targetField @ sq
                           @ '' not found''), st))
            \<and> (\<forall>l. getInt (st event) targetField = Some l \<longrightarrow>
                  (\<exists>res. ?fn event st = Inr (res, st) \<and> (success res \<longleftrightarrow> compare l r)))"
    proof (intro allI conjI impI)
      fix event :: Event and st :: Store
      assume "getInt (st event) targetField = None"
      then show "?fn event st =
                 Inr (makeFailure event
                        (''['' @ ?n @ ''] -> Failure: Target field '' @ sq @ targetField @ sq
                           @ '' not found''), st)"
        by (rule intCmpOp_target_missing)
    next
      fix event :: Event and st :: Store and l
      assume l: "getInt (st event) targetField = Some l"
      have "(case RInt r of RString path \<Rightarrow> getInt (st event) path | RInt i \<Rightarrow> Some i)
            = Some r"
        by simp
      from intCmpOp_compare [where st = st and event = event, OF l this cmp]
      show "\<exists>res. ?fn event st = Inr (res, st) \<and> (success res \<longleftrightarrow> compare l r)"
        by blast
    qed
    with built show ?thesis by blast
  qed
  have on_reference:
    "\<exists>fn. builder ?d =
            Inr (Term (formatHelperName name targetField
                         [\<lparr>m_type = REFERENCE, m_value = path\<rparr>]) fn)
       \<and> (\<forall>event st.
            (getInt (st event) targetField = None \<longrightarrow>
               fn event st =
                 Inr (makeFailure event
                        (''['' @ formatHelperName name targetField
                                   [\<lparr>m_type = REFERENCE, m_value = path\<rparr>]
                           @ ''] -> Failure: Target field '' @ sq @ targetField @ sq
                           @ '' not found''), st))
            \<and> (\<forall>l. getInt (st event) targetField = Some l \<longrightarrow>
                  (getInt (st event) path = None \<longrightarrow>
                     fn event st =
                       Inr (makeFailure event
                              (''['' @ formatHelperName name targetField
                                         [\<lparr>m_type = REFERENCE, m_value = path\<rparr>]
                                 @ ''] -> Failure: Parameter '' @ dq @ path @ dq
                                 @ '' not found''), st))
                  \<and> (\<forall>r. getInt (st event) path = Some r \<longrightarrow>
                        (\<exists>res. fn event st = Inr (res, st)
                           \<and> (success res \<longleftrightarrow> compare l r)))))"
    if ref: "tok = CHR ''$'' # rest \<and> formatJsonPath rest = Inr path" for rest path
  proof -
    let ?p = "\<lparr>m_type = REFERENCE, m_value = path\<rparr>"
    let ?n = "formatHelperName name targetField [?p]"
    let ?fn = "intCmpOp targetField op ?p (RString path) ?n"
    have built: "builder ?d = Inr (Term ?n ?fn)"
      using ref int_helper_on_reference [of builder op rest path targetField name] b
      by simp
    have "\<forall>event st.
            (getInt (st event) targetField = None \<longrightarrow>
               ?fn event st =
                 Inr (makeFailure event
                        (''['' @ ?n @ ''] -> Failure: Target field '' @ sq @ targetField @ sq
                           @ '' not found''), st))
            \<and> (\<forall>l. getInt (st event) targetField = Some l \<longrightarrow>
                  (getInt (st event) path = None \<longrightarrow>
                     ?fn event st =
                       Inr (makeFailure event
                              (''['' @ ?n @ ''] -> Failure: Parameter '' @ dq @ path @ dq
                                 @ '' not found''), st))
                  \<and> (\<forall>r. getInt (st event) path = Some r \<longrightarrow>
                        (\<exists>res. ?fn event st = Inr (res, st)
                           \<and> (success res \<longleftrightarrow> compare l r))))"
    proof (intro allI conjI impI)
      fix event :: Event and st :: Store
      assume "getInt (st event) targetField = None"
      then show "?fn event st =
                 Inr (makeFailure event
                        (''['' @ ?n @ ''] -> Failure: Target field '' @ sq @ targetField @ sq
                           @ '' not found''), st)"
        by (rule intCmpOp_target_missing)
    next
      fix event :: Event and st :: Store and l
      assume l: "getInt (st event) targetField = Some l"
        and r: "getInt (st event) path = None"
      from intCmpOp_reference_missing
             [where st = st and event = event and path = path and p = ?p, OF l r]
      show "?fn event st =
                       Inr (makeFailure event
                              (''['' @ ?n @ ''] -> Failure: Parameter '' @ dq @ path @ dq
                                 @ '' not found''), st)"
        by simp
    next
      fix event :: Event and st :: Store and l r
      assume l: "getInt (st event) targetField = Some l"
        and r: "getInt (st event) path = Some r"
      have "(case RString path of RString path \<Rightarrow> getInt (st event) path
             | RInt i \<Rightarrow> Some i) = Some r"
        using r by simp
      from intCmpOp_compare [where st = st and event = event, OF l this cmp]
      show "\<exists>res. ?fn event st = Inr (res, st) \<and> (success res \<longleftrightarrow> compare l r)"
        by blast
    qed
    with built show ?thesis by blast
  qed
  show ?thesis
  proof (intro conjI allI impI)
    assume "char_at tok 0 \<noteq> CHR ''$''" and "\<exists>e. stoi tok = Inl e"
    then show "\<exists>msg. builder ?d = Inl (RuntimeError msg)"
      using build_error by blast
  next
    fix r
    assume "char_at tok 0 \<noteq> CHR ''$'' \<and> stoi tok = Inr r"
    then show "\<exists>fn. builder ?d =
            Inr (Term (formatHelperName name targetField [\<lparr>m_type = VALUE, m_value = tok\<rparr>]) fn)
       \<and> (\<forall>event st.
            (getInt (st event) targetField = None \<longrightarrow>
               fn event st =
                 Inr (makeFailure event
                        (''['' @ formatHelperName name targetField
                                   [\<lparr>m_type = VALUE, m_value = tok\<rparr>]
                           @ ''] -> Failure: Target field '' @ sq @ targetField @ sq
                           @ '' not found''), st))
            \<and> (\<forall>l. getInt (st event) targetField = Some l \<longrightarrow>
                  (\<exists>res. fn event st = Inr (res, st) \<and> (success res \<longleftrightarrow> compare l r))))"
      by (rule on_value)
  next
    fix rest path
    assume "tok = CHR ''$'' # rest \<and> formatJsonPath rest = Inr path"
    then show "\<exists>fn. builder ?d =
            Inr (Term (formatHelperName name targetField
                         [\<lparr>m_type = REFERENCE, m_value = path\<rparr>]) fn)
       \<and> (\<forall>event st.
            (getInt (st event) targetField = None \<longrightarrow>
               fn event st =
                 Inr (makeFailure event
                        (''['' @ formatHelperName name targetField
                                   [\<lparr>m_type = REFERENCE, m_value = path\<rparr>]
                           @ ''] -> Failure: Target field '' @ sq @ targetField @ sq
                           @ '' not found''), st))
            \<and> (\<forall>l. getInt (st event) targetField = Some l \<longrightarrow>
                  (getInt (st event) path = None \<longrightarrow>
                     fn event st =
                       Inr (makeFailure event
                              (''['' @ formatHelperName name targetField
                                         [\<lparr>m_type = REFERENCE, m_value = path\<rparr>]
                                 @ ''] -> Failure: Parameter '' @ dq @ path @ dq
                                 @ '' not found''), st))
                  \<and> (\<forall>r. getInt (st event) path = Some r \<longrightarrow>
                        (\<exists>res. fn event st = Inr (res, st)
                           \<and> (success res \<longleftrightarrow> compare l r)))))"
      by (rule on_reference)
  qed
qed

text \<open>
  C3. The claim has the build throw on a value operand that is not a base-10 integer,
  and so does the documentation of \<open>getIntCmpFunction\<close> (\<open>std::runtime_error\<close> "if the
  right parameter is a value and not a valid integer"). The code converts the operand
  with \<open>std::stoi\<close>, which reads the leading digits and ignores what follows them. The
  operand \<open>12abc\<close> is a value and no integer; \<open>int_equal\<close> builds on it, and its term
  compares the target with 12: it succeeds on an event whose \<open>/field2check\<close> is 12 and
  fails with "Comparison is false" on one whose \<open>/field2check\<close> is 13. The operand
  \<open>1.5\<close> builds as well, as the integer 1.
\<close>

theorem int_equal_builds_on_non_integer_value:
  "char_at ''12abc'' 0 \<noteq> CHR ''$''
   \<and> stoi ''12abc'' = Inr 12
   \<and> opBuilderHelperIntEqual (AnyDefinition (''/field2check'', ''int_equal'', [''12abc'']))
       = Inr (Term ''helper.int_equal[/field2check, 12abc]''
                (intCmpOp ''/field2check'' EQ \<lparr>m_type = VALUE, m_value = ''12abc''\<rparr> (RInt 12)
                   ''helper.int_equal[/field2check, 12abc]''))
   \<and> runTerm (opBuilderHelperIntEqual
                (AnyDefinition (''/field2check'', ''int_equal'', [''12abc''])))
        0 (singleStore [''/field2check'' \<mapsto> JInt 12])
       = Inr (makeSuccess 0 ''[helper.int_equal[/field2check, 12abc]] -> Success'',
              singleStore [''/field2check'' \<mapsto> JInt 12])
   \<and> runTerm (opBuilderHelperIntEqual
                (AnyDefinition (''/field2check'', ''int_equal'', [''12abc''])))
        0 (singleStore [''/field2check'' \<mapsto> JInt 13])
       = Inr (makeFailure 0
                ''[helper.int_equal[/field2check, 12abc]] -> Failure: Comparison is false'',
              singleStore [''/field2check'' \<mapsto> JInt 13])
   \<and> opBuilderHelperIntEqual (AnyDefinition (''/field2check'', ''int_equal'', [''1.5'']))
       = Inr (Term ''helper.int_equal[/field2check, 1.5]''
                (intCmpOp ''/field2check'' EQ \<lparr>m_type = VALUE, m_value = ''1.5''\<rparr> (RInt 1)
                   ''helper.int_equal[/field2check, 1.5]''))"
  by (simp add: runTerm_def opBuilderHelperIntEqual_def builder_defs formatHelperName_def
      getIntCmpFunction_def intCmpOp_def getInt_def stoi_defs Let_def makeSuccess_def
      makeFailure_def singleStore_def)

section \<open>Type tests\<close>

lemma runTerm_Term: "runTerm (Inr (Term name fn)) event st = fn event st"
  by (simp add: runTerm_def bindE_def)

lemma typeFilterBuilder_no_parameters:
  "typeFilterBuilder isType expected failureWords (AnyDefinition (targetField, name, [])) =
     Inr (Term (formatHelperName name targetField [])
            (typeFilterOp isType expected failureWords targetField
               (formatHelperName name targetField [])))"
  by (simp add: typeFilterBuilder_def extractDefinition_def bindE_def checkParametersSize_def
      Let_def)

lemma boolFilterBuilder_no_parameters:
  "boolFilterBuilder wanted (AnyDefinition (targetField, name, [])) =
     Inr (Term (formatHelperName name targetField [])
            (boolFilterOp wanted targetField (formatHelperName name targetField [])))"
  by (simp add: boolFilterBuilder_def extractDefinition_def bindE_def checkParametersSize_def
      Let_def)

lemma type_helper_builder:
  assumes "(builder, isType, expected) \<in> set typeTestHelpers"
  shows "\<exists>failureWords. builder = typeFilterBuilder isType expected failureWords
            \<and> failureWords \<noteq> '' not found''"
  using assms
  by (auto simp: typeTestHelpers_def opBuilderHelperIsNumber_def opBuilderHelperIsNotNumber_def
      opBuilderHelperIsString_def opBuilderHelperIsNotString_def opBuilderHelperIsBool_def
      opBuilderHelperIsNotBool_def opBuilderHelperIsArray_def opBuilderHelperIsNotArray_def
      opBuilderHelperIsObject_def opBuilderHelperIsNotObject_def opBuilderHelperIsNull_def
      opBuilderHelperIsNotNull_def)

lemma typeFilterOp_wrong_type:
  "exists_path (st event) targetField \<Longrightarrow> isType (st event) targetField \<noteq> expected \<Longrightarrow>
   typeFilterOp isType expected failureWords targetField name event st =
     Inr (makeFailure event (''['' @ name @ ''] -> Failure: Target field '' @ sq @ targetField
            @ sq @ failureWords), st)"
  by (simp add: typeFilterOp_def)

lemma typeFilterOp_absent:
  "\<not> exists_path (st event) targetField \<Longrightarrow>
   typeFilterOp isType expected failureWords targetField name event st =
     Inr (makeFailure event (''['' @ name @ ''] -> Failure: Target field '' @ sq @ targetField
            @ sq @ '' not found''), st)"
  by (simp add: typeFilterOp_def)

lemma boolFilterOp_other_value:
  "getBool (st event) targetField = Some (\<not> wanted) \<Longrightarrow>
   boolFilterOp wanted targetField name event st =
     Inr (makeFailure event (''['' @ name @ ''] -> Failure: Target field '' @ sq @ targetField
            @ sq @ (if wanted then '' is false'' else '' is true'')), st)"
  by (simp add: boolFilterOp_def)

lemma boolFilterOp_no_bool:
  "getBool (st event) targetField = None \<Longrightarrow>
   boolFilterOp wanted targetField name event st =
     Inr (makeFailure event (''['' @ name @ ''] -> Failure: Target field '' @ sq @ targetField
            @ sq @ '' not found''), st)"
  by (simp add: boolFilterOp_def)

lemma getBool_absent: "\<not> exists_path doc path \<Longrightarrow> getBool doc path = None"
  by (simp add: exists_path_def getBool_def)

text \<open>
  C4 as stated fails for \<open>is_true\<close>: on a target that exists and holds a string, the
  failure carries the trace "Target field '/f' not found", the very trace of the failure
  on an event without the field.
\<close>

theorem is_true_non_boolean_trace_counterexample:
  "exists_path [''/f'' \<mapsto> JString ''x''] ''/f''
   \<and> \<not> isBool [''/f'' \<mapsto> JString ''x''] ''/f''
   \<and> \<not> exists_path Map.empty ''/f''
   \<and> runTerm (opBuilderHelperIsTrue (AnyDefinition (''/f'', ''is_true'', []))) 0
         (singleStore [''/f'' \<mapsto> JString ''x''])
       = Inr (makeFailure 0
                (''[helper.is_true[/f]] -> Failure: Target field '' @ sq @ ''/f'' @ sq
                   @ '' not found''),
              singleStore [''/f'' \<mapsto> JString ''x''])
   \<and> runTerm (opBuilderHelperIsTrue (AnyDefinition (''/f'', ''is_true'', []))) 0
         (singleStore Map.empty)
       = Inr (makeFailure 0
                (''[helper.is_true[/f]] -> Failure: Target field '' @ sq @ ''/f'' @ sq
                   @ '' not found''),
              singleStore Map.empty)"
  by (simp add: runTerm_Term opBuilderHelperIsTrue_def boolFilterBuilder_no_parameters
      boolFilterOp_def formatHelperName_def singleStore_def exists_path_def isBool_def
      getBool_def)

text \<open>
  C4, as amended. For the twelve type tests from \<open>is_number\<close> to \<open>is_not_null\<close>,
  a target field that exists and fails the test gives a failure whose trace differs from
  the trace of the failure for an absent target field. For \<open>is_true\<close> and
  \<open>is_false\<close>, a target that holds the other boolean gives a failure whose trace
  differs from the one for an absent target, and a target that exists without being a
  boolean gives the same trace as an absent target ("not found").
\<close>

theorem type_test_failure_traces:
  "(\<forall>(builder, isType, expected) \<in> set typeTestHelpers.
      \<exists>fn. builder (AnyDefinition (targetField, name, []))
             = Inr (Term (formatHelperName name targetField []) fn)
        \<and> (\<forall>event st event' st'.
              exists_path (st event) targetField \<and> isType (st event) targetField \<noteq> expected
              \<and> \<not> exists_path (st' event') targetField \<longrightarrow>
              (\<exists>r r'. fn event st = Inr (r, st) \<and> fn event' st' = Inr (r', st')
                 \<and> \<not> success r \<and> \<not> success r' \<and> trace r \<noteq> trace r')))
   \<and> (\<forall>(builder, wanted) \<in> set boolValueHelpers.
        \<exists>fn. builder (AnyDefinition (targetField, name, []))
               = Inr (Term (formatHelperName name targetField []) fn)
          \<and> (\<forall>event st event' st'.
                getBool (st event) targetField = Some (\<not> wanted)
                \<and> \<not> exists_path (st' event') targetField \<longrightarrow>
                (\<exists>r r'. fn event st = Inr (r, st) \<and> fn event' st' = Inr (r', st')
                   \<and> \<not> success r \<and> \<not> success r' \<and> trace r \<noteq> trace r'))
          \<and> (\<forall>event st event' st'.
                exists_path (st event) targetField \<and> getBool (st event) targetField = None
                \<and> \<not> exists_path (st' event') targetField \<longrightarrow>
                (\<exists>r r'. fn event st = Inr (r, st) \<and> fn event' st' = Inr (r', st')
                   \<and> \<not> success r \<and> \<not> success r' \<and> trace r = trace r')))"
proof (intro conjI ballI)
  fix x assume x: "x \<in> set typeTestHelpers"
  obtain builder isType expected where xe: "x = (builder, isType, expected)"
    by (cases x) auto
  from x xe obtain failureWords where b: "builder = typeFilterBuilder isType expected failureWords"
    and w: "failureWords \<noteq> '' not found''"
    using type_helper_builder by blast
  let ?n = "formatHelperName name targetField []"
  let ?fn = "typeFilterOp isType expected failureWords targetField ?n"
  have "builder (AnyDefinition (targetField, name, [])) = Inr (Term ?n ?fn)"
    by (simp add: b typeFilterBuilder_no_parameters)
  moreover have "\<forall>event st event' st'.
              exists_path (st event) targetField \<and> isType (st event) targetField \<noteq> expected
              \<and> \<not> exists_path (st' event') targetField \<longrightarrow>
              (\<exists>r r'. ?fn event st = Inr (r, st) \<and> ?fn event' st' = Inr (r', st')
                 \<and> \<not> success r \<and> \<not> success r' \<and> trace r \<noteq> trace r')"
    using w by (auto simp: typeFilterOp_wrong_type typeFilterOp_absent makeFailure_def)
  ultimately show "case x of (builder, isType, expected) \<Rightarrow>
      \<exists>fn. builder (AnyDefinition (targetField, name, []))
             = Inr (Term (formatHelperName name targetField []) fn)
        \<and> (\<forall>event st event' st'.
              exists_path (st event) targetField \<and> isType (st event) targetField \<noteq> expected
              \<and> \<not> exists_path (st' event') targetField \<longrightarrow>
              (\<exists>r r'. fn event st = Inr (r, st) \<and> fn event' st' = Inr (r', st')
                 \<and> \<not> success r \<and> \<not> success r' \<and> trace r \<noteq> trace r'))"
    unfolding xe by (simp only: prod.case) blast
next
  fix x assume x: "x \<in> set boolValueHelpers"
  obtain builder wanted where xe: "x = (builder, wanted)"
    by (cases x) auto
  from x xe have b: "builder = boolFilterBuilder wanted"
    by (auto simp: boolValueHelpers_def opBuilderHelperIsTrue_def opBuilderHelperIsFalse_def)
  let ?n = "formatHelperName name targetField []"
  let ?fn = "boolFilterOp wanted targetField ?n"
  have "builder (AnyDefinition (targetField, name, [])) = Inr (Term ?n ?fn)"
    by (simp add: b boolFilterBuilder_no_parameters)
  moreover have "\<forall>event st event' st'.
                getBool (st event) targetField = Some (\<not> wanted)
                \<and> \<not> exists_path (st' event') targetField \<longrightarrow>
                (\<exists>r r'. ?fn event st = Inr (r, st) \<and> ?fn event' st' = Inr (r', st')
                   \<and> \<not> success r \<and> \<not> success r' \<and> trace r \<noteq> trace r')"
    by (auto simp: boolFilterOp_other_value boolFilterOp_no_bool getBool_absent makeFailure_def)
  moreover have "\<forall>event st event' st'.
                exists_path (st event) targetField \<and> getBool (st event) targetField = None
                \<and> \<not> exists_path (st' event') targetField \<longrightarrow>
                (\<exists>r r'. ?fn event st = Inr (r, st) \<and> ?fn event' st' = Inr (r', st')
                   \<and> \<not> success r \<and> \<not> success r' \<and> trace r = trace r')"
    by (auto simp: boolFilterOp_no_bool getBool_absent makeFailure_def)
  ultimately show "case x of (builder, wanted) \<Rightarrow>
        \<exists>fn. builder (AnyDefinition (targetField, name, []))
               = Inr (Term (formatHelperName name targetField []) fn)
          \<and> (\<forall>event st event' st'.
                getBool (st event) targetField = Some (\<not> wanted)
                \<and> \<not> exists_path (st' event') targetField \<longrightarrow>
                (\<exists>r r'. fn event st = Inr (r, st) \<and> fn event' st' = Inr (r', st')
                   \<and> \<not> success r \<and> \<not> success r' \<and> trace r \<noteq> trace r'))
          \<and> (\<forall>event st event' st'.
                exists_path (st event) targetField \<and> getBool (st event) targetField = None
                \<and> \<not> exists_path (st' event') targetField \<longrightarrow>
                (\<exists>r r'. fn event st = Inr (r, st) \<and> fn event' st' = Inr (r', st')
                   \<and> \<not> success r \<and> \<not> success r' \<and> trace r = trace r'))"
    unfolding xe by (simp only: prod.case) blast
qed

theorem type_test_failure_traces_witness:
  "(opBuilderHelperIsNumber, isNumber, True) \<in> set typeTestHelpers
   \<and> exists_path [''/f'' \<mapsto> JString ''x''] ''/f''
   \<and> isNumber [''/f'' \<mapsto> JString ''x''] ''/f'' \<noteq> True
   \<and> \<not> exists_path Map.empty ''/f''
   \<and> runTerm (opBuilderHelperIsNumber (AnyDefinition (''/f'', ''is_number'', []))) 0
         (singleStore [''/f'' \<mapsto> JString ''x''])
       = Inr (makeFailure 0
                (''[helper.is_number[/f]] -> Failure: Target field '' @ sq @ ''/f'' @ sq
                   @ '' is not a number''),
              singleStore [''/f'' \<mapsto> JString ''x''])
   \<and> runTerm (opBuilderHelperIsNumber (AnyDefinition (''/f'', ''is_number'', []))) 0
         (singleStore Map.empty)
       = Inr (makeFailure 0
                (''[helper.is_number[/f]] -> Failure: Target field '' @ sq @ ''/f'' @ sq
                   @ '' not found''),
              singleStore Map.empty)
   \<and> (opBuilderHelperIsTrue, True) \<in> set boolValueHelpers
   \<and> getBool [''/f'' \<mapsto> JBool False] ''/f'' = Some (\<not> True)
   \<and> runTerm (opBuilderHelperIsTrue (AnyDefinition (''/f'', ''is_true'', []))) 0
         (singleStore [''/f'' \<mapsto> JBool False])
       = Inr (makeFailure 0
                (''[helper.is_true[/f]] -> Failure: Target field '' @ sq @ ''/f'' @ sq
                   @ '' is false''),
              singleStore [''/f'' \<mapsto> JBool False])"
  using type_test_failure_traces [of "''/f''" "''is_number''"]
        type_test_failure_traces [of "''/f''" "''is_true''"]
  by (simp add: typeTestHelpers_def boolValueHelpers_def runTerm_Term
      opBuilderHelperIsNumber_def opBuilderHelperIsTrue_def typeFilterBuilder_no_parameters
      boolFilterBuilder_no_parameters typeFilterOp_def boolFilterOp_def formatHelperName_def
      singleStore_def exists_path_def isNumber_def getBool_def)

section \<open>Filter helpers and the event\<close>

lemma stoi_error:
  "stoi s = Inl e \<Longrightarrow> e = InvalidArgument ''stoi'' \<or> e = OutOfRange ''stoi''"
  by (auto simp: stoi_def Let_def split: if_splits)

lemma validateNumericString_cases:
  "(\<exists>m. validateNumericString name targetField p str = Inl (RuntimeError m))
   \<or> validateNumericString name targetField p str = Inl (OutOfRange ''stoi'')
   \<or> (validateNumericString name targetField p str = Inr () \<and> (\<exists>s. str = Some s))"
proof (cases str)
  case None
  then show ?thesis by (simp add: validateNumericString_def)
next
  case (Some s)
  show ?thesis
  proof (cases "stoi s")
    case (Inl e)
    with stoi_error [OF Inl] Some show ?thesis
      by (auto simp: validateNumericString_def)
  next
    case (Inr i)
    with Some show ?thesis by (simp add: validateNumericString_def)
  qed
qed

lemma intCmpOp_readOnly:
  "intCmpFunction op \<noteq> None \<Longrightarrow> readOnly (intCmpOp targetField op p rv name)"
  by (auto simp: readOnly_def intCmpOp_def makeSuccess_def makeFailure_def Let_def
      split: option.splits if_splits)

lemma stringCmpOp_readOnly: "readOnly (stringCmpOp targetField op p name)"
  unfolding readOnly_def
proof (intro allI)
  fix event :: Event and st :: Store
  let ?l = "getString (st event) targetField"
  let ?r = "getString (st event) (m_value p)"
  let ?goal = "(\<exists>res. stringCmpOp targetField op p name event st = Inr (res, st)
                  \<and> payload res = event)
               \<or> stringCmpOp targetField op p name event st = Inl (OutOfRange ''stoi'')"
  consider (lfail) m where "validateNumericString name targetField p ?l = Inl (RuntimeError m)"
    | (lrange) "validateNumericString name targetField p ?l = Inl (OutOfRange ''stoi'')"
    | (lok) l where "validateNumericString name targetField p ?l = Inr ()" "?l = Some l"
    using validateNumericString_cases [of name targetField p ?l] by blast
  then show ?goal
  proof cases
    case lfail
    then show ?thesis by (simp add: stringCmpOp_def makeFailure_def Let_def)
  next
    case lrange
    then show ?thesis by (simp add: stringCmpOp_def Let_def)
  next
    case lok
    show ?thesis
    proof (cases "stoi (m_value p)")
      case (Inl e)
      with stoi_error [OF Inl] lok show ?thesis
        by (auto simp: stringCmpOp_def makeFailure_def Let_def)
    next
      case (Inr i)
      show ?thesis
      proof (cases "m_type p = REFERENCE")
        case False
        with Inr lok show ?thesis
          by (simp add: stringCmpOp_def makeFailure_def makeSuccess_def Let_def bindE_def
              value_of_def)
      next
        case True
        consider (rfail) m where
            "validateNumericString name targetField p ?r = Inl (RuntimeError m)"
          | (rrange) "validateNumericString name targetField p ?r = Inl (OutOfRange ''stoi'')"
          | (rok) r where "validateNumericString name targetField p ?r = Inr ()" "?r = Some r"
          using validateNumericString_cases [of name targetField p ?r] by blast
        then show ?thesis
        proof cases
          case rfail
          with True Inr lok show ?thesis
            by (simp add: stringCmpOp_def makeFailure_def Let_def bindE_def)
        next
          case rrange
          with True Inr lok show ?thesis
            by (simp add: stringCmpOp_def Let_def bindE_def)
        next
          case rok
          with True Inr lok show ?thesis
            by (simp add: stringCmpOp_def makeFailure_def makeSuccess_def Let_def bindE_def
                value_of_def)
        qed
      qed
    qed
  qed
qed

lemma regexOp_readOnly: "readOnly (regexOp re2 negated pattern targetField name)"
  by (auto simp: readOnly_def regexOp_def makeSuccess_def makeFailure_def Let_def
      split: option.splits if_splits)

lemma ipCidrOp_readOnly: "readOnly (ipCidrOp ip lo hi targetField name)"
  by (auto simp: readOnly_def ipCidrOp_def makeSuccess_def makeFailure_def Let_def
      split: option.splits if_splits sum.splits)

lemma existsOp_readOnly: "readOnly (existsOp negated targetField name)"
  by (auto simp: readOnly_def existsOp_def makeSuccess_def makeFailure_def Let_def
      split: if_splits)

lemma containsStringOp_readOnly: "readOnly (containsStringOp jeq parameters targetField name)"
  by (auto simp: readOnly_def containsStringOp_def makeSuccess_def makeFailure_def Let_def
      split: option.splits if_splits)

lemma typeFilterOp_readOnly: "readOnly (typeFilterOp isType expected words targetField name)"
  by (auto simp: readOnly_def typeFilterOp_def makeSuccess_def makeFailure_def Let_def
      split: if_splits)

lemma boolFilterOp_readOnly: "readOnly (boolFilterOp wanted targetField name)"
  by (auto simp: readOnly_def boolFilterOp_def makeSuccess_def makeFailure_def Let_def
      split: option.splits if_splits)

lemma int_comparison_readOnly:
  "opBuilderComparison defn op TypeINT = Inr expr \<Longrightarrow> intCmpFunction op \<noteq> None \<Longrightarrow>
   readOnlyTerm expr"
  by (auto simp: opBuilderComparison_def bindE_def Let_def getIntCmpFunction_def
      readOnlyTerm_def intCmpOp_readOnly
      split: sum.splits prod.splits ParameterType.splits)

lemma int_helpers_readOnly:
  "opBuilderComparison defn EQ TypeINT = Inr expr \<Longrightarrow> readOnlyTerm expr"
  "opBuilderComparison defn NE TypeINT = Inr expr \<Longrightarrow> readOnlyTerm expr"
  "opBuilderComparison defn LT TypeINT = Inr expr \<Longrightarrow> readOnlyTerm expr"
  "opBuilderComparison defn LE TypeINT = Inr expr \<Longrightarrow> readOnlyTerm expr"
  "opBuilderComparison defn GT TypeINT = Inr expr \<Longrightarrow> readOnlyTerm expr"
  "opBuilderComparison defn GE TypeINT = Inr expr \<Longrightarrow> readOnlyTerm expr"
  by (erule int_comparison_readOnly, simp)+

lemma string_comparison_readOnly:
  "opBuilderComparison defn op TypeSTRING = Inr expr \<Longrightarrow> readOnlyTerm expr"
  by (auto simp: opBuilderComparison_def bindE_def Let_def getStringCmpFunction_def
      readOnlyTerm_def stringCmpOp_readOnly split: sum.splits prod.splits)

lemma regexBuilder_readOnly: "regexBuilder re2 negated defn = Inr expr \<Longrightarrow> readOnlyTerm expr"
  by (auto simp: regexBuilder_def bindE_def Let_def readOnlyTerm_def regexOp_readOnly
      split: sum.splits prod.splits if_splits)

lemma opBuilderHelperIPCIDR_readOnly:
  "opBuilderHelperIPCIDR ip defn = Inr expr \<Longrightarrow> readOnlyTerm expr"
  by (auto simp: opBuilderHelperIPCIDR_def bindE_def Let_def readOnlyTerm_def ipCidrOp_readOnly
      split: sum.splits prod.splits)

lemma existsBuilder_readOnly: "existsBuilder negated defn = Inr expr \<Longrightarrow> readOnlyTerm expr"
  by (auto simp: existsBuilder_def bindE_def Let_def readOnlyTerm_def existsOp_readOnly
      split: sum.splits prod.splits)

lemma opBuilderHelperContainsString_readOnly:
  "opBuilderHelperContainsString jeq defn = Inr expr \<Longrightarrow> readOnlyTerm expr"
  by (auto simp: opBuilderHelperContainsString_def bindE_def Let_def readOnlyTerm_def
      containsStringOp_readOnly split: sum.splits prod.splits)

lemma typeFilterBuilder_readOnly:
  "typeFilterBuilder isType expected words defn = Inr expr \<Longrightarrow> readOnlyTerm expr"
  by (auto simp: typeFilterBuilder_def bindE_def Let_def readOnlyTerm_def typeFilterOp_readOnly
      split: sum.splits prod.splits)

lemma boolFilterBuilder_readOnly:
  "boolFilterBuilder wanted defn = Inr expr \<Longrightarrow> readOnlyTerm expr"
  by (auto simp: boolFilterBuilder_def bindE_def Let_def readOnlyTerm_def boolFilterOp_readOnly
      split: sum.splits prod.splits)

lemmas filter_helper_defs =
  opBuilderHelperIntEqual_def opBuilderHelperIntNotEqual_def opBuilderHelperIntLessThan_def
  opBuilderHelperIntLessThanEqual_def opBuilderHelperIntGreaterThan_def
  opBuilderHelperIntGreaterThanEqual_def opBuilderHelperStringEqual_def
  opBuilderHelperStringNotEqual_def opBuilderHelperStringGreaterThan_def
  opBuilderHelperStringGreaterThanEqual_def opBuilderHelperStringLessThan_def
  opBuilderHelperStringLessThanEqual_def opBuilderHelperStringStarts_def
  opBuilderHelperStringContains_def opBuilderHelperRegexMatch_def
  opBuilderHelperRegexNotMatch_def opBuilderHelperExists_def opBuilderHelperNotExists_def
  opBuilderHelperIsNumber_def opBuilderHelperIsNotNumber_def opBuilderHelperIsString_def
  opBuilderHelperIsNotString_def opBuilderHelperIsBool_def opBuilderHelperIsNotBool_def
  opBuilderHelperIsArray_def opBuilderHelperIsNotArray_def opBuilderHelperIsObject_def
  opBuilderHelperIsNotObject_def opBuilderHelperIsNull_def opBuilderHelperIsNotNull_def
  opBuilderHelperIsTrue_def opBuilderHelperIsFalse_def

lemma filterHelpers_readOnly:
  assumes "builder \<in> set (filterHelpers re2 ip jeq)" and "builder defn = Inr expr"
  shows "readOnlyTerm expr"
  using assms
  by (auto simp: filterHelpers_def filter_helper_defs
      dest: int_helpers_readOnly string_comparison_readOnly regexBuilder_readOnly
        opBuilderHelperIPCIDR_readOnly existsBuilder_readOnly
        opBuilderHelperContainsString_readOnly typeFilterBuilder_readOnly
        boolFilterBuilder_readOnly)

lemma readOnly_returns_event:
  assumes "readOnly fn"
  shows "(\<exists>res st'. fn event st = Inr (res, st') \<and> payload res = event)
         \<or> fn event st = Inl (OutOfRange ''stoi'')"
proof -
  from assms have "(\<exists>res. fn event st = Inr (res, st) \<and> payload res = event)
                   \<or> fn event st = Inl (OutOfRange ''stoi'')"
    unfolding readOnly_def by (elim allE)
  then show ?thesis
    by (elim disjE exE conjE)
      (intro disjI1 exI conjI, assumption+, intro disjI2, assumption)
qed

lemma readOnly_keeps_store:
  assumes "readOnly fn"
  shows "(\<exists>res. fn event st = Inr (res, st)) \<or> fn event st = Inl (OutOfRange ''stoi'')"
proof -
  from assms have "(\<exists>res. fn event st = Inr (res, st) \<and> payload res = event)
                   \<or> fn event st = Inl (OutOfRange ''stoi'')"
    unfolding readOnly_def by (elim allE)
  then show ?thesis
    by (elim disjE exE conjE) (intro disjI1 exI, assumption, intro disjI2, assumption)
qed

text \<open>
  C6. Every term that a filter helper of opBuilderHelperFilter.cpp builds hands back, in
  every result it returns, success or failure, the event reference it was called with.
  Every call returns such a result, except that a string comparison is left by the
  \<open>std::out_of_range\<close> of \<open>std::stoi\<close> when the target or the operand is a numeric
  string beyond the range of \<open>int\<close>.
\<close>

theorem helper_term_returns_its_event:
  "\<forall>builder \<in> set (filterHelpers re2 ip jeq).
     \<forall>defn expr. builder defn = Inr expr \<longrightarrow>
       (\<exists>name fn. expr = Term name fn
          \<and> (\<forall>event st. (\<exists>res st'. fn event st = Inr (res, st') \<and> payload res = event)
                          \<or> fn event st = Inl (OutOfRange ''stoi'')))"
proof (intro ballI allI impI)
  fix builder defn expr
  assume "builder \<in> set (filterHelpers re2 ip jeq)" and "builder defn = Inr expr"
  then have "readOnlyTerm expr" by (rule filterHelpers_readOnly)
  then obtain name fn where expr: "expr = Term name fn" and fn: "readOnly fn"
    unfolding readOnlyTerm_def by (elim exE conjE)
  from fn have "\<forall>event st. (\<exists>res st'. fn event st = Inr (res, st') \<and> payload res = event)
                          \<or> fn event st = Inl (OutOfRange ''stoi'')"
    by (intro allI) (rule readOnly_returns_event)
  with expr show "\<exists>name fn. expr = Term name fn
          \<and> (\<forall>event st. (\<exists>res st'. fn event st = Inr (res, st') \<and> payload res = event)
                          \<or> fn event st = Inl (OutOfRange ''stoi''))"
    by (intro exI conjI)
qed

theorem helper_term_returns_its_event_witness:
  "opBuilderHelperExists \<in> set (filterHelpers literalRE2 ipUtils (=))
   \<and> opBuilderHelperExists (AnyDefinition (''/f'', ''exists'', []))
       = Inr (Term ''helper.exists[/f]'' (existsOp False ''/f'' ''helper.exists[/f]''))
   \<and> existsOp False ''/f'' ''helper.exists[/f]'' 7 (singleStore Map.empty)
       = Inr (makeFailure 7
                (''[helper.exists[/f]] -> Failure: Target field '' @ sq @ ''/f'' @ sq
                   @ '' does not exist''),
              singleStore Map.empty)
   \<and> payload (makeFailure 7
                (''[helper.exists[/f]] -> Failure: Target field '' @ sq @ ''/f'' @ sq
                   @ '' does not exist'')) = 7"
  using helper_term_returns_its_event [of literalRE2 ipUtils "(=)"]
  by (simp add: filterHelpers_def opBuilderHelperExists_def existsBuilder_def builder_defs
      formatHelperName_def existsOp_def exists_path_def singleStore_def makeFailure_def Let_def)

text \<open>
  C9. Every term that a filter helper builds (the int and string comparisons,
  \<open>regex_match\<close>, \<open>regex_not_match\<close>, \<open>ip_cidr_match\<close>, \<open>exists\<close>,
  \<open>not_exists\<close>, \<open>array_contains\<close> and the type tests) is read-only: whenever it
  returns, with success or with failure, the store of documents is the one it was called
  with, so the document of the event has the content it had before. Every call returns
  so, except that a string comparison is left by the \<open>std::out_of_range\<close> of
  \<open>std::stoi\<close> on a numeric string beyond the range of \<open>int\<close>.
\<close>

theorem filter_helper_leaves_document_unchanged:
  "\<forall>builder \<in> set (filterHelpers re2 ip jeq).
     \<forall>defn expr. builder defn = Inr expr \<longrightarrow>
       (\<exists>name fn. expr = Term name fn
          \<and> (\<forall>event st. (\<exists>res. fn event st = Inr (res, st))
                          \<or> fn event st = Inl (OutOfRange ''stoi'')))"
proof (intro ballI allI impI)
  fix builder defn expr
  assume "builder \<in> set (filterHelpers re2 ip jeq)" and "builder defn = Inr expr"
  then have "readOnlyTerm expr" by (rule filterHelpers_readOnly)
  then obtain name fn where expr: "expr = Term name fn" and fn: "readOnly fn"
    unfolding readOnlyTerm_def by (elim exE conjE)
  from fn have "\<forall>event st. (\<exists>res. fn event st = Inr (res, st))
                          \<or> fn event st = Inl (OutOfRange ''stoi'')"
    by (intro allI) (rule readOnly_keeps_store)
  with expr show "\<exists>name fn. expr = Term name fn
          \<and> (\<forall>event st. (\<exists>res. fn event st = Inr (res, st))
                          \<or> fn event st = Inl (OutOfRange ''stoi''))"
    by (intro exI conjI)
qed

theorem filter_helper_leaves_document_unchanged_witness:
  "opBuilderHelperIsString \<in> set (filterHelpers literalRE2 ipUtils (=))
   \<and> opBuilderHelperIsString (AnyDefinition (''/f'', ''is_string'', []))
       = Inr (Term ''helper.is_string[/f]''
                (typeFilterOp isString True '' is not a string'' ''/f'' ''helper.is_string[/f]''))
   \<and> typeFilterOp isString True '' is not a string'' ''/f'' ''helper.is_string[/f]'' 0
         (singleStore [''/f'' \<mapsto> JString ''x''])
       = Inr (makeSuccess 0 ''[helper.is_string[/f]] -> Success'',
              singleStore [''/f'' \<mapsto> JString ''x''])"
  using filter_helper_leaves_document_unchanged [of literalRE2 ipUtils "(=)"]
  by (simp add: filterHelpers_def opBuilderHelperIsString_def typeFilterBuilder_no_parameters
      formatHelperName_def typeFilterOp_def exists_path_def isString_def singleStore_def)

section \<open>IPv4 CIDR helper\<close>

lemma cidr_two_values:
  assumes "char_at networkTok 0 \<noteq> CHR ''$''" and "char_at maskTok 0 \<noteq> CHR ''$''"
  shows "opBuilderHelperIPCIDR ip (AnyDefinition (targetField, name, [networkTok, maskTok])) =
     (let parameters = [\<lparr>m_type = VALUE, m_value = networkTok\<rparr>,
                        \<lparr>m_type = VALUE, m_value = maskTok\<rparr>];
          n = formatHelperName name targetField parameters
      in case ip_IPv4ToUInt ip networkTok of
           Inl e \<Rightarrow>
             Inl (RuntimeError (dq @ n @ dq @ '' function: IPv4 address '' @ dq @ to_string 0
                    @ dq @ '' could not be converted to int: '' @ what e))
         | Inr network \<Rightarrow>
             (case ip_IPv4MaskUInt ip maskTok of
                Inl e \<Rightarrow>
                  Inl (RuntimeError (dq @ n @ dq @ '' function: IPv4 Mask '' @ dq @ maskTok @ dq
                         @ '' could not be converted to int: '' @ what e))
              | Inr m \<Rightarrow>
                  Inr (Term n (ipCidrOp ip (network AND m) ((network AND m) OR (NOT m))
                                 targetField n))))"
  using assms
  by (simp add: opBuilderHelperIPCIDR_def extractDefinition_def bindE_def value_token
      checkParametersSize_def checkParameterType_def Let_def split: sum.splits)

lemma ipCidrOp_parsed:
  "getString (st event) targetField = Some s \<Longrightarrow> ip_IPv4ToUInt ip s = Inr ipv \<Longrightarrow>
   \<exists>res. ipCidrOp ip lo hi targetField n event st = Inr (res, st)
         \<and> (success res \<longleftrightarrow> lo \<le> ipv \<and> ipv \<le> hi)"
  by (simp add: ipCidrOp_def makeSuccess_def makeFailure_def)

lemma ipCidrOp_unparsed:
  "getString (st event) targetField = Some s \<Longrightarrow> ip_IPv4ToUInt ip s = Inl e \<Longrightarrow>
   ipCidrOp ip lo hi targetField n event st =
     Inr (makeFailure event (''['' @ n @ ''] -> Failure: IPv4 address '' @ sq @ s @ sq
            @ '' could not be converted to int: '' @ what e), st)"
  by (simp add: ipCidrOp_def)

text \<open>
  C7. \<open>ip_cidr_match\<close> with a network and a mask given as values. If the parser
  rejects the network address or the mask, the build throws a runtime error. Otherwise
  the helper builds a term with \<open>net_lower = network AND mask\<close> and
  \<open>net_upper = net_lower OR (NOT mask)\<close> over 32-bit unsigned numbers: on a target
  that holds a string the parser accepts as the address \<open>ip\<close>, the term succeeds
  iff \<open>net_lower \<le> ip \<le> net_upper\<close>; on a target string the parser rejects, it
  returns a failure whose trace names the string and the parser's message. The parsers
  are arbitrary.
\<close>

theorem ip_cidr_match_contract:
  assumes "char_at networkTok 0 \<noteq> CHR ''$''" and "char_at maskTok 0 \<noteq> CHR ''$''"
  shows
  "((\<exists>e. ip_IPv4ToUInt ip networkTok = Inl e) \<or> (\<exists>e. ip_IPv4MaskUInt ip maskTok = Inl e) \<longrightarrow>
      (\<exists>msg. opBuilderHelperIPCIDR ip (AnyDefinition (targetField, name, [networkTok, maskTok]))
             = Inl (RuntimeError msg)))
   \<and> (\<forall>network m.
        ip_IPv4ToUInt ip networkTok = Inr network \<and> ip_IPv4MaskUInt ip maskTok = Inr m \<longrightarrow>
        (\<exists>n fn.
           opBuilderHelperIPCIDR ip (AnyDefinition (targetField, name, [networkTok, maskTok]))
             = Inr (Term n fn)
           \<and> (\<forall>event st s.
                getString (st event) targetField = Some s \<longrightarrow>
                (\<forall>ipv. ip_IPv4ToUInt ip s = Inr ipv \<longrightarrow>
                   (\<exists>res. fn event st = Inr (res, st)
                      \<and> (success res \<longleftrightarrow>
                           (network AND m) \<le> ipv \<and> ipv \<le> ((network AND m) OR (NOT m)))))
                \<and> (\<forall>e. ip_IPv4ToUInt ip s = Inl e \<longrightarrow>
                      fn event st =
                        Inr (makeFailure event
                               (''['' @ n @ ''] -> Failure: IPv4 address '' @ sq @ s @ sq
                                  @ '' could not be converted to int: '' @ what e), st)))))"
proof (intro conjI impI allI)
  assume "(\<exists>e. ip_IPv4ToUInt ip networkTok = Inl e) \<or> (\<exists>e. ip_IPv4MaskUInt ip maskTok = Inl e)"
  then show "\<exists>msg. opBuilderHelperIPCIDR ip (AnyDefinition (targetField, name, [networkTok, maskTok]))
             = Inl (RuntimeError msg)"
    by (auto simp: cidr_two_values [OF assms] Let_def split: sum.splits)
next
  fix network m
  assume ok: "ip_IPv4ToUInt ip networkTok = Inr network \<and> ip_IPv4MaskUInt ip maskTok = Inr m"
  let ?n = "formatHelperName name targetField
              [\<lparr>m_type = VALUE, m_value = networkTok\<rparr>, \<lparr>m_type = VALUE, m_value = maskTok\<rparr>]"
  let ?fn = "ipCidrOp ip (network AND m) ((network AND m) OR (NOT m)) targetField ?n"
  have "opBuilderHelperIPCIDR ip (AnyDefinition (targetField, name, [networkTok, maskTok]))
          = Inr (Term ?n ?fn)"
    using ok by (simp add: cidr_two_values [OF assms] Let_def)
  moreover have "\<forall>event st s.
                getString (st event) targetField = Some s \<longrightarrow>
                (\<forall>ipv. ip_IPv4ToUInt ip s = Inr ipv \<longrightarrow>
                   (\<exists>res. ?fn event st = Inr (res, st)
                      \<and> (success res \<longleftrightarrow>
                           (network AND m) \<le> ipv \<and> ipv \<le> ((network AND m) OR (NOT m)))))
                \<and> (\<forall>e. ip_IPv4ToUInt ip s = Inl e \<longrightarrow>
                      ?fn event st =
                        Inr (makeFailure event
                               (''['' @ ?n @ ''] -> Failure: IPv4 address '' @ sq @ s @ sq
                                  @ '' could not be converted to int: '' @ what e), st))"
    by (auto simp: ipCidrOp_def makeSuccess_def makeFailure_def)
  ultimately show "\<exists>n fn.
           opBuilderHelperIPCIDR ip (AnyDefinition (targetField, name, [networkTok, maskTok]))
             = Inr (Term n fn)
           \<and> (\<forall>event st s.
                getString (st event) targetField = Some s \<longrightarrow>
                (\<forall>ipv. ip_IPv4ToUInt ip s = Inr ipv \<longrightarrow>
                   (\<exists>res. fn event st = Inr (res, st)
                      \<and> (success res \<longleftrightarrow>
                           (network AND m) \<le> ipv \<and> ipv \<le> ((network AND m) OR (NOT m)))))
                \<and> (\<forall>e. ip_IPv4ToUInt ip s = Inl e \<longrightarrow>
                      fn event st =
                        Inr (makeFailure event
                               (''['' @ n @ ''] -> Failure: IPv4 address '' @ sq @ s @ sq
                                  @ '' could not be converted to int: '' @ what e), st)))"
    by blast
qed

lemma ipv4_examples:
  "IPv4ToUInt ''192.168.0.0'' = Inr 3232235520"
  "IPv4MaskUInt ''16'' = Inr 4294901760"
  "IPv4MaskUInt ''255.255.0.0'' = Inr 4294901760"
  "IPv4ToUInt ''192.168.1.5'' = Inr 3232235781"
  "IPv4ToUInt ''10.0.0.1'' = Inr 167772161"
  "IPv4ToUInt ''10.0.0'' = Inl (InvalidArgument ''Invalid IPv4 address: 10.0.0'')"
  by code_simp+

theorem ip_cidr_match_contract_witness:
  "char_at ''192.168.0.0'' 0 \<noteq> CHR ''$'' \<and> char_at ''16'' 0 \<noteq> CHR ''$''
   \<and> ip_IPv4ToUInt ipUtils ''192.168.0.0'' = Inr 3232235520
   \<and> ip_IPv4MaskUInt ipUtils ''16'' = Inr 4294901760
   \<and> runTerm (opBuilderHelperIPCIDR ipUtils
                (AnyDefinition (''/ip'', ''ip_cidr_match'', [''192.168.0.0'', ''16''])))
        0 (singleStore [''/ip'' \<mapsto> JString ''192.168.1.5''])
       = Inr (makeSuccess 0 ''[helper.ip_cidr_match[/ip, 192.168.0.0, 16]] -> Success'',
              singleStore [''/ip'' \<mapsto> JString ''192.168.1.5''])
   \<and> runTerm (opBuilderHelperIPCIDR ipUtils
                (AnyDefinition (''/ip'', ''ip_cidr_match'', [''192.168.0.0'', ''16''])))
        0 (singleStore [''/ip'' \<mapsto> JString ''10.0.0.1''])
       = Inr (makeFailure 0
                ''[helper.ip_cidr_match[/ip, 192.168.0.0, 16]] -> Failure: IP address is not in CIDR'',
              singleStore [''/ip'' \<mapsto> JString ''10.0.0.1''])
   \<and> runTerm (opBuilderHelperIPCIDR ipUtils
                (AnyDefinition (''/ip'', ''ip_cidr_match'', [''192.168.0.0'', ''16''])))
        0 (singleStore [''/ip'' \<mapsto> JString ''10.0.0''])
       = Inr (makeFailure 0
                (''[helper.ip_cidr_match[/ip, 192.168.0.0, 16]] -> Failure: IPv4 address '' @ sq
                   @ ''10.0.0'' @ sq
                   @ '' could not be converted to int: Invalid IPv4 address: 10.0.0''),
              singleStore [''/ip'' \<mapsto> JString ''10.0.0''])
   \<and> (\<exists>msg. opBuilderHelperIPCIDR ipUtils
               (AnyDefinition (''/ip'', ''ip_cidr_match'', [''10.0.0'', ''16'']))
             = Inl (RuntimeError msg))"
proof -
  have v: "char_at ''192.168.0.0'' 0 \<noteq> CHR ''$''" "char_at ''16'' 0 \<noteq> CHR ''$''"
    "char_at ''10.0.0'' 0 \<noteq> CHR ''$''"
    by (simp_all add: char_at_def)
  note c = ip_cidr_match_contract [OF v(1) v(2), of ipUtils "''/ip''" "''ip_cidr_match''"]
  note e = ip_cidr_match_contract [OF v(3) v(2), of ipUtils "''/ip''" "''ip_cidr_match''"]
  have u: "ip_IPv4ToUInt ipUtils = IPv4ToUInt" "ip_IPv4MaskUInt ipUtils = IPv4MaskUInt"
    by (simp_all add: ipUtils_def)
  show ?thesis
    using c e v
    by (simp add: u ipv4_examples cidr_two_values runTerm_Term formatHelperName_def ipCidrOp_def
        getString_def singleStore_def Let_def)
qed

section \<open>Parameter parsing\<close>

lemma processParameters_length:
  "processParameters name toks = Inr ps \<Longrightarrow>
   length ps = length toks \<and> (\<forall>i < length toks. processParameter name (toks ! i) = Inr (ps ! i))"
proof (induction toks arbitrary: ps)
  case Nil
  then show ?case by simp
next
  case (Cons tok toks)
  from Cons.prems obtain p qs where p: "processParameter name tok = Inr p"
    and qs: "processParameters name toks = Inr qs" and ps: "ps = p # qs"
    by (auto simp: bindE_def split: sum.splits)
  from Cons.IH [OF qs] p ps show ?case
    by (auto simp: nth_Cons split: nat.splits)
qed

text \<open>
  C8. A raw token whose first character is \<open>$\<close> is parsed as a REFERENCE parameter
  that stores the pointer path \<open>formatJsonPath\<close> gives for the rest of the token (and
  the build throws when \<open>formatJsonPath\<close> rejects the rest); the pointer path of a
  non-empty rest is its dot-separated segments, each escaped and preceded by \<open>/\<close>, so
  \<open>$a.b.c\<close> gives \<open>/a/b/c\<close>. Every other token is parsed as a VALUE parameter that
  stores the token unchanged. A list of tokens is parsed token by token, in order.
\<close>

theorem process_parameters_contract:
  "(char_at tok 0 = CHR ''$'' \<longrightarrow>
      (\<forall>pointerPath. formatJsonPath (drop 1 tok) = Inr pointerPath \<longrightarrow>
         processParameter name tok = Inr \<lparr>m_type = REFERENCE, m_value = pointerPath\<rparr>)
      \<and> (\<forall>e. formatJsonPath (drop 1 tok) = Inl e \<longrightarrow>
             (\<exists>msg. processParameter name tok = Inl (RuntimeError msg))))
   \<and> (drop 1 tok \<noteq> [] \<longrightarrow>
        formatJsonPath (drop 1 tok)
          = Inr (concat (map (\<lambda>seg. ''/'' @ escapeSlashes seg) (split (drop 1 tok) (CHR ''.'')))))
   \<and> (char_at tok 0 \<noteq> CHR ''$'' \<longrightarrow>
        processParameter name tok = Inr \<lparr>m_type = VALUE, m_value = tok\<rparr>)
   \<and> (\<forall>ps. processParameters name toks = Inr ps \<longrightarrow>
        length ps = length toks
        \<and> (\<forall>i < length toks. processParameter name (toks ! i) = Inr (ps ! i)))
   \<and> processParameters name [''$a.b.c'', ''a.b.c'']
       = Inr [\<lparr>m_type = REFERENCE, m_value = ''/a/b/c''\<rparr>, \<lparr>m_type = VALUE, m_value = ''a.b.c''\<rparr>]"
proof (intro conjI impI allI)
  fix pointerPath
  assume "char_at tok 0 = CHR ''$''" "formatJsonPath (drop 1 tok) = Inr pointerPath"
  then show "processParameter name tok = Inr \<lparr>m_type = REFERENCE, m_value = pointerPath\<rparr>"
    by (simp add: processParameter_def REFERENCE_ANCHOR_def)
next
  fix e
  assume "char_at tok 0 = CHR ''$''" "formatJsonPath (drop 1 tok) = Inl e"
  then show "\<exists>msg. processParameter name tok = Inl (RuntimeError msg)"
    by (simp add: processParameter_def REFERENCE_ANCHOR_def)
next
  assume "drop 1 tok \<noteq> []"
  then show "formatJsonPath (drop 1 tok)
          = Inr (concat (map (\<lambda>seg. ''/'' @ escapeSlashes seg) (split (drop 1 tok) (CHR ''.''))))"
    by (simp add: formatJsonPath_def join_leading comp_def)
next
  assume "char_at tok 0 \<noteq> CHR ''$''"
  then show "processParameter name tok = Inr \<lparr>m_type = VALUE, m_value = tok\<rparr>"
    by (simp add: processParameter_def REFERENCE_ANCHOR_def)
next
  fix ps assume "processParameters name toks = Inr ps"
  then show "length ps = length toks"
    using processParameters_length by blast
next
  fix ps i assume "processParameters name toks = Inr ps" "i < length toks"
  then show "processParameter name (toks ! i) = Inr (ps ! i)"
    using processParameters_length by blast
next
  show "processParameters name [''$a.b.c'', ''a.b.c'']
       = Inr [\<lparr>m_type = REFERENCE, m_value = ''/a/b/c''\<rparr>, \<lparr>m_type = VALUE, m_value = ''a.b.c''\<rparr>]"
    by (simp add: bindE_def processParameter_def REFERENCE_ANCHOR_def char_at_def
        formatJsonPath_def split_segments join_leading escapeSlashes_def)
qed



theorem process_parameters_contract_witness:
  "char_at ''$parentObjt_2.field2check'' 0 = CHR ''$''
   \<and> formatJsonPath (drop 1 ''$parentObjt_2.field2check'') = Inr ''/parentObjt_2/field2check''
   \<and> processParameter ''string_less_or_equal'' ''$parentObjt_2.field2check''
       = Inr \<lparr>m_type = REFERENCE, m_value = ''/parentObjt_2/field2check''\<rparr>
   \<and> char_at ''value1'' 0 \<noteq> CHR ''$''
   \<and> processParameter ''string_less_or_equal'' ''value1''
       = Inr \<lparr>m_type = VALUE, m_value = ''value1''\<rparr>"
proof -
  have anchor: "char_at ''$parentObjt_2.field2check'' 0 = CHR ''$''"
    by (simp add: char_at_def)
  have path: "formatJsonPath (drop 1 ''$parentObjt_2.field2check'') = Inr ''/parentObjt_2/field2check''"
    by (simp add: formatJsonPath_def split_segments join_leading escapeSlashes_def)
  have plain: "char_at ''value1'' 0 \<noteq> CHR ''$''"
    by (simp add: char_at_def)
  from process_parameters_contract
         [of "''$parentObjt_2.field2check''" "''string_less_or_equal''" "[]"] anchor path
  have ref: "processParameter ''string_less_or_equal'' ''$parentObjt_2.field2check''
       = Inr \<lparr>m_type = REFERENCE, m_value = ''/parentObjt_2/field2check''\<rparr>"
    by blast
  from process_parameters_contract [of "''value1''" "''string_less_or_equal''" "[]"] plain
  have val: "processParameter ''string_less_or_equal'' ''value1''
       = Inr \<lparr>m_type = VALUE, m_value = ''value1''\<rparr>"
    by blast
  from anchor path ref plain val show ?thesis by blast
qed

section \<open>\<open>wdb_update\<close>\<close>

lemma replyIsOk_iff:
  "replyIsOk reply \<longleftrightarrow>
     reply = ''ok'' \<or> (\<exists>c rest. reply = ''ok'' @ c # rest \<and> isspace c)"
proof
  assume ok: "replyIsOk reply"
  then have head: "take 2 reply = ''ok''"
    and rest: "case drop 2 reply of [] \<Rightarrow> True | c # rest \<Rightarrow> isspace c"
    by (simp_all add: replyIsOk_def)
  have whole: "reply = ''ok'' @ drop 2 reply"
    using head append_take_drop_id [of 2 reply] by simp
  show "reply = ''ok'' \<or> (\<exists>c rest. reply = ''ok'' @ c # rest \<and> isspace c)"
  proof (cases "drop 2 reply")
    case Nil
    with whole show ?thesis by simp
  next
    case (Cons c rest')
    with rest have "isspace c" by simp
    with whole Cons show ?thesis by auto
  qed
next
  assume "reply = ''ok'' \<or> (\<exists>c rest. reply = ''ok'' @ c # rest \<and> isspace c)"
  then show "replyIsOk reply" by (auto simp: replyIsOk_def)
qed

lemma wdb_single_parameter:
  "opBuilderWdbUpdate query (AnyDefinition (targetField, name, [tok])) =
     bindE (processParameter name tok) (\<lambda>p.
       Inr (Term (formatHelperName name targetField [p])
              (wdbUpdateOp query p targetField (formatHelperName name targetField [p]))))"
  by (simp add: opBuilderWdbUpdate_def extractDefinition_def bindE_def checkParametersSize_def
      Let_def split: sum.splits)

lemma wdbUpdateOp_reply:
  assumes "(case m_type p of VALUE \<Rightarrow> Some (m_value p)
            | REFERENCE \<Rightarrow> getString (st event) (m_value p)) = Some q"
    and "q \<noteq> []" and "query q = Some reply"
  shows "wdbUpdateOp query p targetField n event st =
           Inr (makeSuccess event (''['' @ n @ ''] -> Success''),
                st(event := setBool (st event) (replyIsOk reply) targetField))"
  using assms by (simp add: wdbUpdateOp_def)

lemma wdbUpdateOp_no_request:
  assumes "(case m_type p of VALUE \<Rightarrow> Some (m_value p)
            | REFERENCE \<Rightarrow> getString (st event) (m_value p)) = None
           \<or> (case m_type p of VALUE \<Rightarrow> Some (m_value p)
            | REFERENCE \<Rightarrow> getString (st event) (m_value p)) = Some []"
  shows "\<exists>res. wdbUpdateOp query p targetField n event st = Inr (res, st) \<and> \<not> success res"
  using assms by (auto simp: wdbUpdateOp_def makeFailure_def)

text \<open>
  C5. A \<open>wdb_update\<close> term with one operand. When the request (the value, or the
  string the reference resolves to) is a non-empty string and the socket exchange gives
  a reply, the term succeeds and the target field of its event is the boolean that tells
  whether the reply begins with \<open>ok\<close>, that is, whether it is \<open>ok\<close> alone or
  \<open>ok\<close> followed by a white-space character and a payload: \<open>true\<close> then,
  \<open>false\<close> for any other reply. When the reference is missing or
  resolves to the empty string, the term fails.
\<close>

theorem wdb_update_contract:
  "\<forall>expr. opBuilderWdbUpdate query (AnyDefinition (targetField, name, [tok])) = Inr expr \<longrightarrow>
     (\<exists>p fn. processParameter name tok = Inr p
        \<and> expr = Term (formatHelperName name targetField [p]) fn
        \<and> (\<forall>event st request.
              request = (case m_type p of VALUE \<Rightarrow> Some (m_value p)
                         | REFERENCE \<Rightarrow> getString (st event) (m_value p)) \<longrightarrow>
              (\<forall>q reply. request = Some q \<and> q \<noteq> [] \<and> query q = Some reply \<longrightarrow>
                 (\<exists>res st'. fn event st = Inr (res, st') \<and> success res \<and> payload res = event
                    \<and> getBool (st' event) targetField
                        = Some (reply = ''ok''
                                \<or> (\<exists>c rest. reply = ''ok'' @ c # rest \<and> isspace c))))
              \<and> (request = None \<or> request = Some [] \<longrightarrow>
                   (\<exists>res. fn event st = Inr (res, st) \<and> \<not> success res))))"
proof (intro allI impI)
  fix expr
  assume built: "opBuilderWdbUpdate query (AnyDefinition (targetField, name, [tok])) = Inr expr"
  then obtain p where p: "processParameter name tok = Inr p"
    and expr: "expr = Term (formatHelperName name targetField [p])
                 (wdbUpdateOp query p targetField (formatHelperName name targetField [p]))"
    by (auto simp: wdb_single_parameter bindE_def split: sum.splits)
  let ?n = "formatHelperName name targetField [p]"
  let ?fn = "wdbUpdateOp query p targetField ?n"
  have "\<forall>event st request.
              request = (case m_type p of VALUE \<Rightarrow> Some (m_value p)
                         | REFERENCE \<Rightarrow> getString (st event) (m_value p)) \<longrightarrow>
              (\<forall>q reply. request = Some q \<and> q \<noteq> [] \<and> query q = Some reply \<longrightarrow>
                 (\<exists>res st'. ?fn event st = Inr (res, st') \<and> success res \<and> payload res = event
                    \<and> getBool (st' event) targetField
                        = Some (reply = ''ok''
                                \<or> (\<exists>c rest. reply = ''ok'' @ c # rest \<and> isspace c))))
              \<and> (request = None \<or> request = Some [] \<longrightarrow>
                   (\<exists>res. ?fn event st = Inr (res, st) \<and> \<not> success res))"
  proof (intro allI impI conjI)
    fix event :: Event and st :: Store and request q reply
    assume r: "request = (case m_type p of VALUE \<Rightarrow> Some (m_value p)
                         | REFERENCE \<Rightarrow> getString (st event) (m_value p))"
      and q: "request = Some q \<and> q \<noteq> [] \<and> query q = Some reply"
    have "?fn event st =
           Inr (makeSuccess event (''['' @ ?n @ ''] -> Success''),
                st(event := setBool (st event) (replyIsOk reply) targetField))"
      using r q by (intro wdbUpdateOp_reply [where q = q]) auto
    then show "\<exists>res st'. ?fn event st = Inr (res, st') \<and> success res \<and> payload res = event
                    \<and> getBool (st' event) targetField
                        = Some (reply = ''ok''
                                \<or> (\<exists>c rest. reply = ''ok'' @ c # rest \<and> isspace c))"
      by (simp add: makeSuccess_def setBool_def getBool_def replyIsOk_iff)
  next
    fix event :: Event and st :: Store and request
    assume r: "request = (case m_type p of VALUE \<Rightarrow> Some (m_value p)
                         | REFERENCE \<Rightarrow> getString (st event) (m_value p))"
      and "request = None \<or> request = Some []"
    then show "\<exists>res. ?fn event st = Inr (res, st) \<and> \<not> success res"
      by (intro wdbUpdateOp_no_request) auto
  qed
  with p expr show "\<exists>p fn. processParameter name tok = Inr p
        \<and> expr = Term (formatHelperName name targetField [p]) fn
        \<and> (\<forall>event st request.
              request = (case m_type p of VALUE \<Rightarrow> Some (m_value p)
                         | REFERENCE \<Rightarrow> getString (st event) (m_value p)) \<longrightarrow>
              (\<forall>q reply. request = Some q \<and> q \<noteq> [] \<and> query q = Some reply \<longrightarrow>
                 (\<exists>res st'. fn event st = Inr (res, st') \<and> success res \<and> payload res = event
                    \<and> getBool (st' event) targetField
                        = Some (reply = ''ok''
                                \<or> (\<exists>c rest. reply = ''ok'' @ c # rest \<and> isspace c))))
              \<and> (request = None \<or> request = Some [] \<longrightarrow>
                   (\<exists>res. fn event st = Inr (res, st) \<and> \<not> success res)))"
    by blast
qed


theorem wdb_update_contract_witness:
  "runTerm (opBuilderWdbUpdate (replyWith ''ok with discart payload'')
             (AnyDefinition (''/wdb/result'', ''wdb_update'', [''$wdb.query_parameters''])))
     0 (singleStore [''/wdb/query_parameters'' \<mapsto> JString ''agent 007 syscheck''])
   = Inr (makeSuccess 0 ''[helper.wdb_update[/wdb/result, /wdb/query_parameters]] -> Success'',
          (singleStore [''/wdb/query_parameters'' \<mapsto> JString ''agent 007 syscheck''])
            (0 := [''/wdb/query_parameters'' \<mapsto> JString ''agent 007 syscheck'',
                   ''/wdb/result'' \<mapsto> JBool True]))
   \<and> runTerm (opBuilderWdbUpdate (replyWith (''ok'' @ CHR 0x09 # ''payload''))
             (AnyDefinition (''/wdb/result'', ''wdb_update'', [''$wdb.query_parameters''])))
     0 (singleStore [''/wdb/query_parameters'' \<mapsto> JString ''agent 007 syscheck''])
   = Inr (makeSuccess 0 ''[helper.wdb_update[/wdb/result, /wdb/query_parameters]] -> Success'',
          (singleStore [''/wdb/query_parameters'' \<mapsto> JString ''agent 007 syscheck''])
            (0 := [''/wdb/query_parameters'' \<mapsto> JString ''agent 007 syscheck'',
                   ''/wdb/result'' \<mapsto> JBool True]))
   \<and> runTerm (opBuilderWdbUpdate (replyWith ''NotOk'')
             (AnyDefinition (''/wdb/result'', ''wdb_update'', [''$wdb.query_parameters''])))
     0 (singleStore [''/wdb/query_parameters'' \<mapsto> JString ''agent 007 syscheck''])
   = Inr (makeSuccess 0 ''[helper.wdb_update[/wdb/result, /wdb/query_parameters]] -> Success'',
          (singleStore [''/wdb/query_parameters'' \<mapsto> JString ''agent 007 syscheck''])
            (0 := [''/wdb/query_parameters'' \<mapsto> JString ''agent 007 syscheck'',
                   ''/wdb/result'' \<mapsto> JBool False]))
   \<and> runTerm (opBuilderWdbUpdate (replyWith ''ok'')
             (AnyDefinition (''/wdb/result'', ''wdb_update'', [''$wdb.query_parameters''])))
     0 (singleStore [''/wdb/query_parameters'' \<mapsto> JString []])
   = Inr (makeFailure 0
            ''[helper.wdb_update[/wdb/result, /wdb/query_parameters]] -> Failure: The query is empty'',
          singleStore [''/wdb/query_parameters'' \<mapsto> JString []])"
proof -
  have p: "processParameter ''wdb_update'' ''$wdb.query_parameters''
           = Inr \<lparr>m_type = REFERENCE, m_value = ''/wdb/query_parameters''\<rparr>"
    by (simp add: processParameter_def REFERENCE_ANCHOR_def char_at_def formatJsonPath_def
        split_segments join_leading escapeSlashes_def)
  note c = wdb_update_contract [of "replyWith ''ok with discart payload''" "''/wdb/result''"
             "''wdb_update''" "''$wdb.query_parameters''"]
  show ?thesis
    using c
    by (simp add: wdb_single_parameter p bindE_def runTerm_Term formatHelperName_def
        wdbUpdateOp_def getString_def singleStore_def replyWith_def replyIsOk_def isspace_def
        setBool_def makeSuccess_def makeFailure_def)
qed

section \<open>Policy composition\<close>

lemma completeEnv_acyclic: "cyclic completeEnv = []"
  by (simp add: cyclic_def settle_def completeEnv_def assetOf_def filterOf_def)

lemma completeEnv_expression:
  "getExpression completeEnv =
     Inr (Chain ''policyRoot''
       [Or ''decodersInput''
          [Implication ''decoder1Node'' (asset_expr (assetOf ''decoder1'' DECODER []))
             (Or ''children''
                [Implication ''filter1Node'' (And ''filter1'' [])
                   (Or ''children''
                      [asset_expr (assetOf ''decoder1_1'' DECODER [''decoder1'']),
                       asset_expr (assetOf ''decoder1_2'' DECODER [''decoder1''])])]),
           Implication ''decoder2Node'' (asset_expr (assetOf ''decoder2'' DECODER []))
             (Or ''children'' [asset_expr (assetOf ''decoder23_1'' DECODER [''decoder2'', ''decoder3''])]),
           Implication ''decoder3Node'' (asset_expr (assetOf ''decoder3'' DECODER []))
             (Or ''children'' [asset_expr (assetOf ''decoder23_1'' DECODER [''decoder2'', ''decoder3''])])],
        Broadcast ''rulesInput''
          [Implication ''rule1Node'' (asset_expr (assetOf ''rule1'' RULE []))
             (Broadcast ''children'' [asset_expr (assetOf ''rule1_1'' RULE [''rule1''])]),
           asset_expr (assetOf ''rule2'' RULE [])],
        Broadcast ''outputsInput'' [asset_expr (assetOf ''output1'' OUTPUT [])]])"
  by (simp add: getExpression_def completeEnv_acyclic)
     (simp add: completeEnv_def assetOf_def filterOf_def orphans_def
      filtersWithoutTarget_def assetsOfType_def buildGraph_def rootsOf_def bindE_def
      buildNode.simps childrenOf_def filtersOf_def)

lemma gatedLeafEnv_acyclic: "cyclic gatedLeafEnv = []"
  by (simp add: cyclic_def settle_def gatedLeafEnv_def assetOf_def filterOf_def)

lemma gatedLeafEnv_expression:
  "getExpression gatedLeafEnv =
     Inr (Chain ''policyRoot''
       [Or ''decodersInput''
          [Implication ''decoder1Node'' (asset_expr (assetOf ''decoder1'' DECODER []))
             (Or ''children''
                [Implication ''filter2Node'' (And ''filter2'' [])
                   (Or ''children''
                      [Implication ''filter1Node'' (And ''filter1'' [])
                         (Or ''children'' [])])])],
        Broadcast ''rulesInput'' [asset_expr (assetOf ''rule1'' RULE [])],
        Broadcast ''outputsInput'' [asset_expr (assetOf ''output1'' OUTPUT [])]])"
  by (simp add: getExpression_def gatedLeafEnv_acyclic)
     (simp add: gatedLeafEnv_def assetOf_def filterOf_def orphans_def
      filtersWithoutTarget_def assetsOfType_def buildGraph_def rootsOf_def bindE_def
      buildNode.simps childrenOf_def filtersOf_def)

lemma cycleEnv_error:
  "getExpression cycleEnv = Inl (RuntimeError ''CompilerError: cycle through asset decoder2'')"
  by (simp add: getExpression_def cycleEnv_def assetOf_def filterOf_def orphans_def
      filtersWithoutTarget_def assetsOfType_def cyclic_def settle_def)

lemma buildGraph_shape:
  assumes "buildGraph p ty inputName = Inr g"
  shows "if assetsOfType p ty = [] then g = []
         else (\<exists>nodes.
                 sequenceE (map (buildNode p (map asset_name (policy_assets p))) (rootsOf p ty))
                   = Inr nodes
                 \<and> g = [mkOperation (childrenKind ty) inputName nodes])"
  using assms by (auto simp: buildGraph_def bindE_def split: if_splits sum.splits)

lemma getExpression_graphs:
  assumes "getExpression p = Inr expr"
  shows "\<exists>decoderGraph ruleGraph outputGraph.
           buildGraph p DECODER ''decodersInput'' = Inr decoderGraph
           \<and> buildGraph p RULE ''rulesInput'' = Inr ruleGraph
           \<and> buildGraph p OUTPUT ''outputsInput'' = Inr outputGraph
           \<and> expr = Chain ''policyRoot'' (decoderGraph @ ruleGraph @ outputGraph)"
  using assms by (auto simp: getExpression_def bindE_def split: if_splits sum.splits)

lemma buildNode_node:
  assumes "buildNode p unvisited a = Inr node"
    and "childrenOf p a \<noteq> [] \<or> filtersOf p a \<noteq> []"
  shows "\<exists>children.
           sequenceE (map (buildNode p (remove1 (asset_name a) unvisited)) (childrenOf p a))
             = Inr children
           \<and> node = Implication (asset_name a @ ''Node'') (asset_expr a)
                      (mkOperation (childrenKind (asset_type a)) ''children''
                         (gate (childrenKind (asset_type a)) (filtersOf p a) children))"
  using assms
  by (subst (asm) buildNode.simps) (auto simp: bindE_def split: if_splits sum.splits)

lemma gate_append:
  "gate kind (before @ after) children = gate kind after (gate kind before children)"
  by (induction before arbitrary: children) simp_all

lemma gate_filter:
  "gate kind (before @ f # after) children =
     gate kind after
       [Implication (asset_name f @ ''Node'') (asset_expr f)
          (mkOperation kind ''children'' (gate kind before children))]"
  by (simp add: gate_append)

text \<open>
  C2. When a policy compiles, its expression is the \<open>Chain\<close> \<open>policyRoot\<close> over the
  graphs that are present, in the order decoders, rules, outputs: the decoder graph is
  the \<open>Or\<close> \<open>decodersInput\<close>, the rule graph the \<open>Broadcast\<close> \<open>rulesInput\<close>, the
  output graph the \<open>Broadcast\<close> \<open>outputsInput\<close>, each over the nodes of its root
  assets; with at least one decoder, one rule and one output the chain has exactly these
  three operands. An asset with children, or with a filter that gates it, compiles to
  \<open>Implication(<name>Node, assetExpr, children)\<close>, where the children are under an
  \<open>Or\<close> for a decoder and under a \<open>Broadcast\<close> for a rule or an output. Without a
  filter the operands are the children's nodes. Every filter that gates the asset, be
  it the only one or one of several, with children below the asset or without, puts
  \<open>Implication(<filter>Node, filterExpr, Or/Broadcast(children))\<close> in the place of
  the children that the asset has when the filter is applied: the nodes of the children
  for the first filter, the \<open>Implication\<close> of the filter before it for any other; the
  asset is left with the \<open>Implication\<close> of its last filter as its only child.
\<close>

theorem policy_expression_shape:
  "(\<forall>expr. getExpression p = Inr expr \<longrightarrow>
      (\<exists>decoderGraph ruleGraph outputGraph.
         expr = Chain ''policyRoot'' (decoderGraph @ ruleGraph @ outputGraph)
         \<and> (if assetsOfType p DECODER = [] then decoderGraph = []
             else (\<exists>nodes.
                     sequenceE (map (buildNode p (map asset_name (policy_assets p)))
                                  (rootsOf p DECODER)) = Inr nodes
                     \<and> decoderGraph = [Or ''decodersInput'' nodes]))
         \<and> (if assetsOfType p RULE = [] then ruleGraph = []
             else (\<exists>nodes.
                     sequenceE (map (buildNode p (map asset_name (policy_assets p)))
                                  (rootsOf p RULE)) = Inr nodes
                     \<and> ruleGraph = [Broadcast ''rulesInput'' nodes]))
         \<and> (if assetsOfType p OUTPUT = [] then outputGraph = []
             else (\<exists>nodes.
                     sequenceE (map (buildNode p (map asset_name (policy_assets p)))
                                  (rootsOf p OUTPUT)) = Inr nodes
                     \<and> outputGraph = [Broadcast ''outputsInput'' nodes]))))
   \<and> (\<forall>expr. getExpression p = Inr expr \<and> assetsOfType p DECODER \<noteq> []
               \<and> assetsOfType p RULE \<noteq> [] \<and> assetsOfType p OUTPUT \<noteq> [] \<longrightarrow>
        (\<exists>decoders rules outputs.
           expr = Chain ''policyRoot''
                    [Or ''decodersInput'' decoders, Broadcast ''rulesInput'' rules,
                     Broadcast ''outputsInput'' outputs]))
   \<and> (\<forall>unvisited a node.
        buildNode p unvisited a = Inr node
        \<and> (childrenOf p a \<noteq> [] \<or> filtersOf p a \<noteq> []) \<longrightarrow>
        (\<exists>children.
           sequenceE (map (buildNode p (remove1 (asset_name a) unvisited)) (childrenOf p a))
             = Inr children
           \<and> (asset_type a = DECODER \<longrightarrow>
                node = Implication (asset_name a @ ''Node'') (asset_expr a)
                         (Or ''children'' (gate OrKind (filtersOf p a) children)))
           \<and> (asset_type a = RULE \<or> asset_type a = OUTPUT \<longrightarrow>
                node = Implication (asset_name a @ ''Node'') (asset_expr a)
                         (Broadcast ''children'' (gate BroadcastKind (filtersOf p a) children)))
           \<and> (filtersOf p a = [] \<longrightarrow>
                gate (childrenKind (asset_type a)) (filtersOf p a) children = children)
           \<and> (\<forall>f. filtersOf p a = [f] \<longrightarrow>
                gate (childrenKind (asset_type a)) (filtersOf p a) children
                  = [Implication (asset_name f @ ''Node'') (asset_expr f)
                       (mkOperation (childrenKind (asset_type a)) ''children'' children)])
           \<and> (\<forall>f later. filtersOf p a = f # later \<longrightarrow>
                gate (childrenKind (asset_type a)) (filtersOf p a) children
                  = gate (childrenKind (asset_type a)) later
                      [Implication (asset_name f @ ''Node'') (asset_expr f)
                         (mkOperation (childrenKind (asset_type a)) ''children'' children)])
           \<and> (\<forall>earlier f later. filtersOf p a = earlier @ f # later \<longrightarrow>
                gate (childrenKind (asset_type a)) (filtersOf p a) children
                  = gate (childrenKind (asset_type a)) later
                      [Implication (asset_name f @ ''Node'') (asset_expr f)
                         (mkOperation (childrenKind (asset_type a)) ''children''
                            (gate (childrenKind (asset_type a)) earlier children))])
           \<and> (\<forall>earlier f. filtersOf p a = earlier @ [f] \<longrightarrow>
                gate (childrenKind (asset_type a)) (filtersOf p a) children
                  = [Implication (asset_name f @ ''Node'') (asset_expr f)
                       (mkOperation (childrenKind (asset_type a)) ''children''
                          (gate (childrenKind (asset_type a)) earlier children))])))"
proof (intro conjI allI impI)
  fix expr
  assume e: "getExpression p = Inr expr"
  from getExpression_graphs [OF e] obtain decoderGraph ruleGraph outputGraph where
    g: "buildGraph p DECODER ''decodersInput'' = Inr decoderGraph"
       "buildGraph p RULE ''rulesInput'' = Inr ruleGraph"
       "buildGraph p OUTPUT ''outputsInput'' = Inr outputGraph"
    and expr: "expr = Chain ''policyRoot'' (decoderGraph @ ruleGraph @ outputGraph)"
    by blast
  have d: "if assetsOfType p DECODER = [] then decoderGraph = []
             else (\<exists>nodes.
                     sequenceE (map (buildNode p (map asset_name (policy_assets p)))
                                  (rootsOf p DECODER)) = Inr nodes
                     \<and> decoderGraph = [Or ''decodersInput'' nodes])"
    using buildGraph_shape [OF g(1)] by (simp cong: if_cong)
  have r: "if assetsOfType p RULE = [] then ruleGraph = []
             else (\<exists>nodes.
                     sequenceE (map (buildNode p (map asset_name (policy_assets p)))
                                  (rootsOf p RULE)) = Inr nodes
                     \<and> ruleGraph = [Broadcast ''rulesInput'' nodes])"
    using buildGraph_shape [OF g(2)] by (simp cong: if_cong)
  have o: "if assetsOfType p OUTPUT = [] then outputGraph = []
             else (\<exists>nodes.
                     sequenceE (map (buildNode p (map asset_name (policy_assets p)))
                                  (rootsOf p OUTPUT)) = Inr nodes
                     \<and> outputGraph = [Broadcast ''outputsInput'' nodes])"
    using buildGraph_shape [OF g(3)] by (simp cong: if_cong)
  from expr d r o
  show "\<exists>decoderGraph ruleGraph outputGraph.
         expr = Chain ''policyRoot'' (decoderGraph @ ruleGraph @ outputGraph)
         \<and> (if assetsOfType p DECODER = [] then decoderGraph = []
             else (\<exists>nodes.
                     sequenceE (map (buildNode p (map asset_name (policy_assets p)))
                                  (rootsOf p DECODER)) = Inr nodes
                     \<and> decoderGraph = [Or ''decodersInput'' nodes]))
         \<and> (if assetsOfType p RULE = [] then ruleGraph = []
             else (\<exists>nodes.
                     sequenceE (map (buildNode p (map asset_name (policy_assets p)))
                                  (rootsOf p RULE)) = Inr nodes
                     \<and> ruleGraph = [Broadcast ''rulesInput'' nodes]))
         \<and> (if assetsOfType p OUTPUT = [] then outputGraph = []
             else (\<exists>nodes.
                     sequenceE (map (buildNode p (map asset_name (policy_assets p)))
                                  (rootsOf p OUTPUT)) = Inr nodes
                     \<and> outputGraph = [Broadcast ''outputsInput'' nodes]))"
    by blast
next
  fix expr
  assume a: "getExpression p = Inr expr \<and> assetsOfType p DECODER \<noteq> []
               \<and> assetsOfType p RULE \<noteq> [] \<and> assetsOfType p OUTPUT \<noteq> []"
  then have e: "getExpression p = Inr expr" by simp
  from getExpression_graphs [OF e] obtain decoderGraph ruleGraph outputGraph where
    g: "buildGraph p DECODER ''decodersInput'' = Inr decoderGraph"
       "buildGraph p RULE ''rulesInput'' = Inr ruleGraph"
       "buildGraph p OUTPUT ''outputsInput'' = Inr outputGraph"
    and expr: "expr = Chain ''policyRoot'' (decoderGraph @ ruleGraph @ outputGraph)"
    by blast
  from buildGraph_shape [OF g(1)] buildGraph_shape [OF g(2)] buildGraph_shape [OF g(3)] a expr
  show "\<exists>decoders rules outputs.
           expr = Chain ''policyRoot''
                    [Or ''decodersInput'' decoders, Broadcast ''rulesInput'' rules,
                     Broadcast ''outputsInput'' outputs]"
    by auto
next
  fix unvisited a node
  assume b: "buildNode p unvisited a = Inr node
             \<and> (childrenOf p a \<noteq> [] \<or> filtersOf p a \<noteq> [])"
  let ?kind = "childrenKind (asset_type a)"
  from b obtain children where
    c: "sequenceE (map (buildNode p (remove1 (asset_name a) unvisited)) (childrenOf p a))
          = Inr children"
    and n: "node = Implication (asset_name a @ ''Node'') (asset_expr a)
                      (mkOperation ?kind ''children'' (gate ?kind (filtersOf p a) children))"
    using buildNode_node [of p unvisited a node] by blast
  have decoder: "asset_type a = DECODER \<longrightarrow>
                node = Implication (asset_name a @ ''Node'') (asset_expr a)
                         (Or ''children'' (gate OrKind (filtersOf p a) children))"
    using n by simp
  have rule_output: "asset_type a = RULE \<or> asset_type a = OUTPUT \<longrightarrow>
                node = Implication (asset_name a @ ''Node'') (asset_expr a)
                         (Broadcast ''children'' (gate BroadcastKind (filtersOf p a) children))"
    using n by auto
  have none: "filtersOf p a = [] \<longrightarrow> gate ?kind (filtersOf p a) children = children"
    by simp
  have one: "\<forall>f. filtersOf p a = [f] \<longrightarrow>
                gate ?kind (filtersOf p a) children
                  = [Implication (asset_name f @ ''Node'') (asset_expr f)
                       (mkOperation ?kind ''children'' children)]"
    by simp
  have first: "\<forall>f later. filtersOf p a = f # later \<longrightarrow>
                gate ?kind (filtersOf p a) children
                  = gate ?kind later
                      [Implication (asset_name f @ ''Node'') (asset_expr f)
                         (mkOperation ?kind ''children'' children)]"
    by simp
  have every: "\<forall>earlier f later. filtersOf p a = earlier @ f # later \<longrightarrow>
                gate ?kind (filtersOf p a) children
                  = gate ?kind later
                      [Implication (asset_name f @ ''Node'') (asset_expr f)
                         (mkOperation ?kind ''children'' (gate ?kind earlier children))]"
    by (simp add: gate_filter)
  have last: "\<forall>earlier f. filtersOf p a = earlier @ [f] \<longrightarrow>
                gate ?kind (filtersOf p a) children
                  = [Implication (asset_name f @ ''Node'') (asset_expr f)
                       (mkOperation ?kind ''children'' (gate ?kind earlier children))]"
    by (simp add: gate_filter)
  show "\<exists>children.
           sequenceE (map (buildNode p (remove1 (asset_name a) unvisited)) (childrenOf p a))
             = Inr children
           \<and> (asset_type a = DECODER \<longrightarrow>
                node = Implication (asset_name a @ ''Node'') (asset_expr a)
                         (Or ''children'' (gate OrKind (filtersOf p a) children)))
           \<and> (asset_type a = RULE \<or> asset_type a = OUTPUT \<longrightarrow>
                node = Implication (asset_name a @ ''Node'') (asset_expr a)
                         (Broadcast ''children'' (gate BroadcastKind (filtersOf p a) children)))
           \<and> (filtersOf p a = [] \<longrightarrow>
                gate (childrenKind (asset_type a)) (filtersOf p a) children = children)
           \<and> (\<forall>f. filtersOf p a = [f] \<longrightarrow>
                gate (childrenKind (asset_type a)) (filtersOf p a) children
                  = [Implication (asset_name f @ ''Node'') (asset_expr f)
                       (mkOperation (childrenKind (asset_type a)) ''children'' children)])
           \<and> (\<forall>f later. filtersOf p a = f # later \<longrightarrow>
                gate (childrenKind (asset_type a)) (filtersOf p a) children
                  = gate (childrenKind (asset_type a)) later
                      [Implication (asset_name f @ ''Node'') (asset_expr f)
                         (mkOperation (childrenKind (asset_type a)) ''children'' children)])
           \<and> (\<forall>earlier f later. filtersOf p a = earlier @ f # later \<longrightarrow>
                gate (childrenKind (asset_type a)) (filtersOf p a) children
                  = gate (childrenKind (asset_type a)) later
                      [Implication (asset_name f @ ''Node'') (asset_expr f)
                         (mkOperation (childrenKind (asset_type a)) ''children''
                            (gate (childrenKind (asset_type a)) earlier children))])
           \<and> (\<forall>earlier f. filtersOf p a = earlier @ [f] \<longrightarrow>
                gate (childrenKind (asset_type a)) (filtersOf p a) children
                  = [Implication (asset_name f @ ''Node'') (asset_expr f)
                       (mkOperation (childrenKind (asset_type a)) ''children''
                          (gate (childrenKind (asset_type a)) earlier children))])"
    using c decoder rule_output none one first every last
    by (intro exI [of _ children] conjI)
qed

theorem policy_expression_shape_witness:
  "assetsOfType completeEnv DECODER \<noteq> [] \<and> assetsOfType completeEnv RULE \<noteq> []
   \<and> assetsOfType completeEnv OUTPUT \<noteq> []
   \<and> getExpression completeEnv =
     Inr (Chain ''policyRoot''
       [Or ''decodersInput''
          [Implication ''decoder1Node'' (asset_expr (assetOf ''decoder1'' DECODER []))
             (Or ''children''
                [Implication ''filter1Node'' (And ''filter1'' [])
                   (Or ''children''
                      [asset_expr (assetOf ''decoder1_1'' DECODER [''decoder1'']),
                       asset_expr (assetOf ''decoder1_2'' DECODER [''decoder1''])])]),
           Implication ''decoder2Node'' (asset_expr (assetOf ''decoder2'' DECODER []))
             (Or ''children''
                [asset_expr (assetOf ''decoder23_1'' DECODER [''decoder2'', ''decoder3''])]),
           Implication ''decoder3Node'' (asset_expr (assetOf ''decoder3'' DECODER []))
             (Or ''children''
                [asset_expr (assetOf ''decoder23_1'' DECODER [''decoder2'', ''decoder3''])])],
        Broadcast ''rulesInput''
          [Implication ''rule1Node'' (asset_expr (assetOf ''rule1'' RULE []))
             (Broadcast ''children'' [asset_expr (assetOf ''rule1_1'' RULE [''rule1''])]),
           asset_expr (assetOf ''rule2'' RULE [])],
        Broadcast ''outputsInput'' [asset_expr (assetOf ''output1'' OUTPUT [])]])
   \<and> (\<exists>decoders rules outputs.
         getExpression completeEnv =
           Inr (Chain ''policyRoot''
                  [Or ''decodersInput'' decoders, Broadcast ''rulesInput'' rules,
                   Broadcast ''outputsInput'' outputs]))
   \<and> childrenOf gatedLeafEnv (assetOf ''decoder1'' DECODER []) = []
   \<and> filtersOf gatedLeafEnv (assetOf ''decoder1'' DECODER [])
       = [filterOf ''filter1'' [''decoder1''], filterOf ''filter2'' [''decoder1'']]
   \<and> buildNode gatedLeafEnv (map asset_name (policy_assets gatedLeafEnv))
         (assetOf ''decoder1'' DECODER [])
       = Inr (Implication ''decoder1Node'' (asset_expr (assetOf ''decoder1'' DECODER []))
                (Or ''children''
                   [Implication ''filter2Node'' (And ''filter2'' [])
                      (Or ''children''
                         [Implication ''filter1Node'' (And ''filter1'' [])
                            (Or ''children'' [])])]))
   \<and> getExpression gatedLeafEnv =
     Inr (Chain ''policyRoot''
       [Or ''decodersInput''
          [Implication ''decoder1Node'' (asset_expr (assetOf ''decoder1'' DECODER []))
             (Or ''children''
                [Implication ''filter2Node'' (And ''filter2'' [])
                   (Or ''children''
                      [Implication ''filter1Node'' (And ''filter1'' [])
                         (Or ''children'' [])])])],
        Broadcast ''rulesInput'' [asset_expr (assetOf ''rule1'' RULE [])],
        Broadcast ''outputsInput'' [asset_expr (assetOf ''output1'' OUTPUT [])]])"
proof -
  have kinds: "assetsOfType completeEnv DECODER \<noteq> []" "assetsOfType completeEnv RULE \<noteq> []"
    "assetsOfType completeEnv OUTPUT \<noteq> []"
    by (simp_all add: assetsOfType_def completeEnv_def assetOf_def filterOf_def)
  obtain expr where expr: "getExpression completeEnv = Inr expr"
    using completeEnv_expression by blast
  from policy_expression_shape [of completeEnv, THEN conjunct2, THEN conjunct1] expr kinds
  have chain: "\<exists>decoders rules outputs.
          expr = Chain ''policyRoot''
                   [Or ''decodersInput'' decoders, Broadcast ''rulesInput'' rules,
                    Broadcast ''outputsInput'' outputs]"
    by blast
  let ?d = "assetOf ''decoder1'' DECODER []"
  let ?names = "map asset_name (policy_assets gatedLeafEnv)"
  have leaf: "childrenOf gatedLeafEnv ?d = []"
    and filters: "filtersOf gatedLeafEnv ?d
                  = [filterOf ''filter1'' [''decoder1''], filterOf ''filter2'' [''decoder1'']]"
    by (simp_all add: childrenOf_def filtersOf_def gatedLeafEnv_def assetOf_def filterOf_def)
  have "\<exists>node. buildNode gatedLeafEnv ?names ?d = Inr node"
    by (simp add: buildNode.simps childrenOf_def filtersOf_def gatedLeafEnv_def assetOf_def
        filterOf_def bindE_def)
  then obtain node where node: "buildNode gatedLeafEnv ?names ?d = Inr node" ..
  from policy_expression_shape [of gatedLeafEnv, THEN conjunct2, THEN conjunct2,
         rule_format, of ?names ?d node] node filters leaf
  have "node = Implication (asset_name ?d @ ''Node'') (asset_expr ?d)
                 (Or ''children''
                    (gate OrKind
                       [filterOf ''filter1'' [''decoder1''], filterOf ''filter2'' [''decoder1'']]
                       []))"
    by (auto simp: assetOf_def)
  then have "node = Implication ''decoder1Node'' (asset_expr ?d)
                (Or ''children''
                   [Implication ''filter2Node'' (And ''filter2'' [])
                      (Or ''children''
                         [Implication ''filter1Node'' (And ''filter1'' [])
                            (Or ''children'' [])])])"
    by (simp add: assetOf_def filterOf_def)
  with node have built: "buildNode gatedLeafEnv ?names ?d
       = Inr (Implication ''decoder1Node'' (asset_expr ?d)
                (Or ''children''
                   [Implication ''filter2Node'' (And ''filter2'' [])
                      (Or ''children''
                         [Implication ''filter1Node'' (And ''filter1'' [])
                            (Or ''children'' [])])]))"
    by simp
  from expr chain have "\<exists>decoders rules outputs.
         getExpression completeEnv =
           Inr (Chain ''policyRoot''
                  [Or ''decodersInput'' decoders, Broadcast ''rulesInput'' rules,
                   Broadcast ''outputsInput'' outputs])"
    by simp
  with kinds completeEnv_expression leaf filters built gatedLeafEnv_expression
  show ?thesis by (intro conjI)
qed

end
